theory Spec2Isabelle
  imports Complex_Main "HOL-Library.Sublist"
begin

section \<open>Python values\<close>

text \<open>
  The program is one Python script, \<^verbatim>\<open>app.py\<close>. The two remote services answer with
  nested dictionaries and lists: the text model's body is read with \<^verbatim>\<open>json.loads\<close>,
  the knowledge base's answer is the dictionary the client library returns. Python gives
  these values no static type, so they are modelled by one datatype of dynamic values,
  and every operation of the script on them is a function that raises where Python does.
  A dictionary is an association list, looked up with \<open>map_of\<close>; a parsed dictionary has
  each key once.
\<close>

datatype json =
    JNull
  | JBool bool
  | JInt int
  | JFloat real
  | JStr string
  | JArr "json list"
  | JObj "(string \<times> json) list"

text \<open>
  Exceptions, all of them subclasses of Python's \<^verbatim>\<open>Exception\<close>. \<open>ClientError\<close> stands
  for whatever a service call raises, with its message; the others are raised by the
  interpreter. The wording of the interpreter's messages is not modelled.
\<close>

datatype exn =
    ClientError string
  | NameError string
  | KeyError json
  | IndexError
  | TypeError
  | AttributeError
  | ValueError string

text \<open>A block of statements stops at the first exception: \<open>Inl\<close> is the raise.\<close>

definition try_bind :: "exn + 'a \<Rightarrow> ('a \<Rightarrow> exn + 'b) \<Rightarrow> exn + 'b" where
  "try_bind m f = (case m of Inl e \<Rightarrow> Inl e | Inr x \<Rightarrow> f x)"

text \<open>\<^verbatim>\<open>v[k]\<close> for a string key \<open>k\<close>.\<close>

fun getitem_str :: "json \<Rightarrow> string \<Rightarrow> exn + json" where
  "getitem_str (JObj d) k =
     (case map_of d k of None \<Rightarrow> Inl (KeyError (JStr k)) | Some v \<Rightarrow> Inr v)"
| "getitem_str _ k = Inl TypeError"

text \<open>\<^verbatim>\<open>v[0]\<close>. A dictionary read from JSON has string keys only, so \<open>0\<close> is no key.\<close>

fun getitem_0 :: "json \<Rightarrow> exn + json" where
  "getitem_0 (JArr xs) = (case xs of [] \<Rightarrow> Inl IndexError | x # _ \<Rightarrow> Inr x)"
| "getitem_0 (JStr s) = (case s of [] \<Rightarrow> Inl IndexError | c # _ \<Rightarrow> Inr (JStr [c]))"
| "getitem_0 (JObj d) = Inl (KeyError (JInt 0))"
| "getitem_0 _ = Inl TypeError"

text \<open>\<^verbatim>\<open>len(v)\<close>.\<close>

fun py_len :: "json \<Rightarrow> exn + nat" where
  "py_len (JArr xs) = Inr (length xs)"
| "py_len (JStr s) = Inr (length s)"
| "py_len (JObj d) = Inr (length d)"
| "py_len _ = Inl TypeError"

text \<open>
  \<^verbatim>\<open>k in v\<close> for a string \<open>k\<close>: a key of a dictionary, an element of a list, a
  substring of a string.
\<close>

fun contains_str :: "string \<Rightarrow> json \<Rightarrow> exn + bool" where
  "contains_str k (JObj d) = Inr (k \<in> set (map fst d))"
| "contains_str k (JArr xs) = Inr (JStr k \<in> set xs)"
| "contains_str k (JStr s) = Inr (sublist k s)"
| "contains_str k _ = Inl TypeError"

text \<open>
  \<^verbatim>\<open>for item in v\<close>: the elements of a list, the keys of a dictionary, the characters
  of a string.
\<close>

fun py_iter :: "json \<Rightarrow> exn + json list" where
  "py_iter (JArr xs) = Inr xs"
| "py_iter (JObj d) = Inr (map (\<lambda>kv. JStr (fst kv)) d)"
| "py_iter (JStr s) = Inr (map (\<lambda>c. JStr [c]) s)"
| "py_iter _ = Inl TypeError"

text \<open>The truth value of \<^verbatim>\<open>if v:\<close>.\<close>

fun truthy :: "json \<Rightarrow> bool" where
  "truthy JNull = False"
| "truthy (JBool b) = b"
| "truthy (JInt n) = (n \<noteq> 0)"
| "truthy (JFloat x) = (x \<noteq> 0)"
| "truthy (JStr s) = (s \<noteq> [])"
| "truthy (JArr xs) = (xs \<noteq> [])"
| "truthy (JObj d) = (d \<noteq> [])"

text \<open>
  A Python string is the list of its characters, and text outside ASCII is kept in its
  UTF-8 encoding: concatenation, equality, emptiness and the substring test are the
  same on the encodings as on the strings. Reading a string by position, its length
  and its iteration happen only where a response holds a string in the place of a list,
  and there every continuation is the same whatever the characters are: the next
  subscript raises \<^verbatim>\<open>TypeError\<close>, the length is only compared with zero, and no single
  character contains the word text.

  \<^verbatim>\<open>str.lower()\<close> is the interpreter's: it lower-cases by the Unicode tables, it is
  not a map over characters, and it is no part of this repository. It is a parameter
  \<open>str_lower\<close> of the functions that use it.
\<close>

text \<open>\<^verbatim>\<open>sep.join(xs)\<close> for a list of strings.\<close>

fun join :: "string \<Rightarrow> string list \<Rightarrow> string" where
  "join sep [] = []"
| "join sep [x] = x"
| "join sep (x # y # ys) = x @ sep @ join sep (y # ys)"

text \<open>
  \<^verbatim>\<open>''.join(seq)\<close> for a sequence of values: every element must be a string.
\<close>

fun join_empty :: "json list \<Rightarrow> exn + string" where
  "join_empty [] = Inr []"
| "join_empty (JStr s # rest) = try_bind (join_empty rest) (\<lambda>r. Inr (s @ r))"
| "join_empty (_ # rest) = Inl TypeError"

text \<open>
  The generator \<^verbatim>\<open>(item['text'] for item in content if 'text' in item)\<close>, over the
  items of \<open>content\<close>.
\<close>

fun text_items :: "json list \<Rightarrow> exn + json list" where
  "text_items [] = Inr []"
| "text_items (item # rest) =
     try_bind (contains_str ''text'' item) (\<lambda>has_text.
       if has_text then
         try_bind (getitem_str item ''text'') (\<lambda>t.
         try_bind (text_items rest) (\<lambda>ts. Inr (t # ts)))
       else text_items rest)"

text \<open>
  Lines 109-110 and 207-208:
  \<^verbatim>\<open>content = response_body['output']['message']['content']\<close>,
  \<^verbatim>\<open>result = ''.join(item['text'] for item in content if 'text' in item)\<close>.
  \<^verbatim>\<open>join\<close> first runs the generator to its end, then checks the elements.
\<close>

definition extract_text :: "json \<Rightarrow> exn + string" where
  "extract_text response_body =
     try_bind (getitem_str response_body ''output'') (\<lambda>output.
     try_bind (getitem_str output ''message'') (\<lambda>message.
     try_bind (getitem_str message ''content'') (\<lambda>content.
     try_bind (py_iter content) (\<lambda>items.
     try_bind (text_items items) (\<lambda>texts.
     join_empty texts)))))"

section \<open>Environment, services and the state of a run\<close>

text \<open>
  \<^verbatim>\<open>os.environ\<close> after \<^verbatim>\<open>load_dotenv()\<close>; \<^verbatim>\<open>os.getenv\<close> gives \<^verbatim>\<open>None\<close> for a variable
  that is not set, and an f-string prints \<^verbatim>\<open>None\<close> as the word None.
\<close>

type_synonym environ = "string \<Rightarrow> string option"

definition getenv :: "environ \<Rightarrow> string \<Rightarrow> string option" where
  "getenv env var = env var"

definition fmt_opt :: "string option \<Rightarrow> string" where
  "fmt_opt v = (case v of None \<Rightarrow> ''None'' | Some s \<Rightarrow> s)"

text \<open>The truth value of \<^verbatim>\<open>os.getenv(var)\<close>: \<^verbatim>\<open>None\<close> and the empty string are false.\<close>

definition env_truthy :: "string option \<Rightarrow> bool" where
  "env_truthy v = (case v of None \<Rightarrow> False | Some s \<Rightarrow> s \<noteq> [])"

text \<open>
  The remote services are parameters of the model. \<open>invoke_model_fn\<close> takes the model
  identifier and the request body and stands for lines 99-106 (and 197-204): the call
  \<^verbatim>\<open>bedrock_runtime.invoke_model\<close>, reading the body and \<^verbatim>\<open>json.loads\<close>; it gives the
  parsed body, or the exception any of the three raises. \<open>retrieve_and_generate_fn\<close>
  takes the query text, the knowledge-base identifier and the model ARN (lines 129-138).
  A client that was never created is \<open>None\<close>: the global name is unbound and its use
  raises \<^verbatim>\<open>NameError\<close>.
\<close>

type_synonym invoke_model_fn = "string option \<Rightarrow> json \<Rightarrow> exn + json"

type_synonym retrieve_and_generate_fn = "string \<Rightarrow> string option \<Rightarrow> string \<Rightarrow> exn + json"

record clients =
  bedrock_runtime :: "invoke_model_fn option"
  bedrock_agent :: "retrieve_and_generate_fn option"

record boto3 =
  runtime_client :: "exn + invoke_model_fn"
  agent_client :: "exn + retrieve_and_generate_fn"

text \<open>
  A formatted string is kept as its parts: literal text, a value printed by an f-string
  or passed to a widget as it is (\<open>Fmt\<close>), \<^verbatim>\<open>str(e)\<close> and \<^verbatim>\<open>traceback.format_exc()\<close>
  of an exception. A part \<open>Fmt (JStr s)\<close> is the text \<open>s\<close>.
\<close>

datatype part = Lit string | Fmt json | StrExn exn | FormatExc exn

type_synonym fstring = "part list"

datatype level = INFO | WARNING | ERROR

text \<open>
  What the run shows through Streamlit, in order: \<^verbatim>\<open>st.error\<close>, \<^verbatim>\<open>st.markdown\<close>,
  the opening of a \<^verbatim>\<open>st.chat_message\<close> container, \<^verbatim>\<open>st.title\<close> and \<^verbatim>\<open>st.subheader\<close>.
\<close>

datatype st_event =
    StError fstring
  | StMarkdown fstring
  | StChatMessage string
  | StTitle "string option"
  | StSubheader string

datatype call =
    InvokeModel "string option" json
  | RetrieveAndGenerate string "string option" string

record message =
  role :: string
  content :: json

text \<open>
  The state a run changes: the session's chat history, the widgets shown, the lines
  logged (the logger's level is INFO, line 12, so \<^verbatim>\<open>logger.debug\<close> emits nothing and is
  left out; its argument, \<^verbatim>\<open>json.dumps\<close> of a value of type \<open>json\<close>, raises nothing) and
  the calls made to the services. Streamlit's and the logger's own calls are taken to
  return normally.
\<close>

record app_state =
  chat_history :: "message list"
  ui :: "st_event list"
  logged :: "(level \<times> fstring) list"
  calls :: "call list"

definition logger :: "level \<Rightarrow> fstring \<Rightarrow> app_state \<Rightarrow> app_state" where
  "logger lvl msg st = st\<lparr>logged := logged st @ [(lvl, msg)]\<rparr>"

definition st_show :: "st_event \<Rightarrow> app_state \<Rightarrow> app_state" where
  "st_show ev st = st\<lparr>ui := ui st @ [ev]\<rparr>"

definition history_append :: "message \<Rightarrow> app_state \<Rightarrow> app_state" where
  "history_append m st = st\<lparr>chat_history := chat_history st @ [m]\<rparr>"

definition record_call :: "call \<Rightarrow> app_state \<Rightarrow> app_state" where
  "record_call c st = st\<lparr>calls := calls st @ [c]\<rparr>"

text \<open>
  The handler shared by the three functions (lines 116-120, 163-167, 212-216):
  \<^verbatim>\<open>error_msg = f"<prefix>{str(e)}"\<close>, logged, the traceback logged, \<^verbatim>\<open>st.error(error_msg)\<close>.
\<close>

definition report_error :: "string \<Rightarrow> exn \<Rightarrow> app_state \<Rightarrow> app_state" where
  "report_error pfx e st =
     st_show (StError [Lit pfx, StrExn e])
       (logger ERROR [FormatExc e]
         (logger ERROR [Lit pfx, StrExn e] st))"

section \<open>Startup (lines 21-65)\<close>

definition required_env_vars :: "string list" where
  "required_env_vars =
     [''AWS_REGION'', ''AWS_ACCESS_KEY_ID'', ''AWS_SECRET_ACCESS_KEY'',
      ''MODEL_ID'', ''KNOWLEDGE_BASE_ID'', ''PRODUCT_NAME'', ''APP_TITLE'']"

definition missing_vars :: "environ \<Rightarrow> string list" where
  "missing_vars env = filter (\<lambda>var. \<not> env_truthy (getenv env var)) required_env_vars"

definition missing_error_msg :: "environ \<Rightarrow> string" where
  "missing_error_msg env =
     ''Missing required environment variables: '' @ join '', '' (missing_vars env)"

text \<open>Lines 30-34: the script raises \<^verbatim>\<open>ValueError\<close> and stops there.\<close>

definition validate_env :: "environ \<Rightarrow> app_state \<Rightarrow> (exn + unit) \<times> app_state" where
  "validate_env env st =
     (if missing_vars env \<noteq> [] then
        (Inl (ValueError (missing_error_msg env)),
         logger ERROR [Lit (missing_error_msg env)] st)
      else (Inr (), st))"

text \<open>
  Lines 45-65: the two clients are created in one \<^verbatim>\<open>try\<close>; when the first creation
  raises, neither name is bound, when the second raises, only \<^verbatim>\<open>bedrock_runtime\<close> is.
  The script goes on in both cases.
\<close>

definition init_clients :: "boto3 \<Rightarrow> app_state \<Rightarrow> clients \<times> app_state" where
  "init_clients b st =
     (case runtime_client b of
        Inl e \<Rightarrow>
          (\<lparr>bedrock_runtime = None, bedrock_agent = None\<rparr>,
           report_error ''Failed to initialize Bedrock clients: '' e st)
      | Inr rt \<Rightarrow>
          (let st1 = logger INFO [Lit ''Bedrock Runtime client initialized successfully''] st
           in case agent_client b of
                Inl e \<Rightarrow>
                  (\<lparr>bedrock_runtime = Some rt, bedrock_agent = None\<rparr>,
                   report_error ''Failed to initialize Bedrock clients: '' e st1)
              | Inr ag \<Rightarrow>
                  (\<lparr>bedrock_runtime = Some rt, bedrock_agent = Some ag\<rparr>,
                   logger INFO [Lit ''Bedrock Agent Runtime client initialized successfully'']
                     st1)))"

section \<open>\<^verbatim>\<open>classify_query\<close> (lines 67-121)\<close>

definition classify_system_text :: "environ \<Rightarrow> string" where
  \<open>classify_system_text env =
     ''Classify user input into:'' @ [CHR 0x0A] @
     ''"Product" - for '' @ fmt_opt (getenv env ''PRODUCT_NAME'') @ '' specific queries'' @ [CHR 0x0A] @
     ''"Generic" - for general questions.'' @ [CHR 0x0A] @
     ''Only respond with category.'' @ [CHR 0x0A] @
     ''Just Product or Generic, nothing more or less.''\<close>

definition classify_request :: "environ \<Rightarrow> string \<Rightarrow> json" where
  "classify_request env query =
     JObj [(''schemaVersion'', JStr ''messages-v1''),
           (''messages'',
              JArr [JObj [(''role'', JStr ''user''),
                          (''content'', JArr [JObj [(''text'', JStr query)]])]]),
           (''system'', JArr [JObj [(''text'', JStr (classify_system_text env))]]),
           (''inferenceConfig'',
              JObj [(''max_new_tokens'', JInt 10), (''top_p'', JFloat 0.9),
                    (''top_k'', JInt 20), (''temperature'', JFloat 0.7)])]"

text \<open>
  The \<^verbatim>\<open>try\<close> block, lines 73-114. The state it returns holds what was done
  before the exception, when there is one.
\<close>

definition classify_query_try ::
  "(string \<Rightarrow> string) \<Rightarrow> environ \<Rightarrow> clients \<Rightarrow> string \<Rightarrow> app_state \<Rightarrow>
     (exn + string) \<times> app_state" where
  "classify_query_try str_lower env cl query st =
     (case bedrock_runtime cl of
        None \<Rightarrow> (Inl (NameError ''bedrock_runtime''), st)
      | Some invoke_model \<Rightarrow>
          (let request_body = classify_request env query;
               model_id = getenv env ''MODEL_ID'';
               st1 = record_call (InvokeModel model_id request_body) st
           in case try_bind (invoke_model model_id request_body) extract_text of
                Inl e \<Rightarrow> (Inl e, st1)
              | Inr result \<Rightarrow>
                  (case getenv env ''PRODUCT_NAME'' of
                     None \<Rightarrow> (Inl AttributeError, st1)
                   | Some product_name \<Rightarrow>
                       (let classification =
                              (if sublist (str_lower product_name) (str_lower result)
                               then ''Product'' else ''Generic'')
                        in (Inr classification,
                            logger INFO [Lit (''Query classified as: '' @ classification)]
                              st1)))))"

definition classify_query ::
  "(string \<Rightarrow> string) \<Rightarrow> environ \<Rightarrow> clients \<Rightarrow> string \<Rightarrow> app_state \<Rightarrow>
     string \<times> app_state" where
  "classify_query str_lower env cl query st =
     (case classify_query_try str_lower env cl query
             (logger INFO [Lit (''Classifying query: '' @ query)] st) of
        (Inr classification, st1) \<Rightarrow> (classification, st1)
      | (Inl e, st1) \<Rightarrow> (''Generic'', report_error ''Classification error: '' e st1))"

section \<open>\<^verbatim>\<open>get_kb_response\<close> (lines 123-168)\<close>

text \<open>
  Lines 144-145:
  \<^verbatim>\<open>len(kb_response['citations']) > 0 and len(kb_response['citations'][0]['retrievedReferences']) > 0\<close>;
  the second operand is evaluated only when the first is true.
\<close>

definition has_first_reference :: "json \<Rightarrow> exn + bool" where
  "has_first_reference kb_response =
     try_bind (getitem_str kb_response ''citations'') (\<lambda>citations.
     try_bind (py_len citations) (\<lambda>n.
       if n > 0 then
         try_bind (getitem_str kb_response ''citations'') (\<lambda>citations.
         try_bind (getitem_0 citations) (\<lambda>citation.
         try_bind (getitem_str citation ''retrievedReferences'') (\<lambda>refs.
         try_bind (py_len refs) (\<lambda>m. Inr (m > 0)))))
       else Inr False))"

text \<open>\<^verbatim>\<open>kb_response['citations'][0]['retrievedReferences'][0]\<close>, the prefix of lines 146 and 147.\<close>

definition first_reference :: "json \<Rightarrow> exn + json" where
  "first_reference kb_response =
     try_bind (getitem_str kb_response ''citations'') (\<lambda>citations.
     try_bind (getitem_0 citations) (\<lambda>citation.
     try_bind (getitem_str citation ''retrievedReferences'') (\<lambda>refs.
     getitem_0 refs)))"

definition citation_context :: "json \<Rightarrow> exn + json" where
  "citation_context kb_response =
     try_bind (first_reference kb_response) (\<lambda>ref.
     try_bind (getitem_str ref ''content'') (\<lambda>c.
     getitem_str c ''text''))"

definition citation_source :: "json \<Rightarrow> exn + json" where
  "citation_source kb_response =
     try_bind (first_reference kb_response) (\<lambda>ref.
     try_bind (getitem_str ref ''location'') (\<lambda>loc.
     try_bind (getitem_str loc ''s3Location'') (\<lambda>s3.
     getitem_str s3 ''uri'')))"

definition context_label :: string where
  "context_label = ''<span style='color:#FFDA33'>Context: </span>''"

definition source_label :: string where
  "source_label = ''<span style='color:#FFDA33'>Source: </span>''"

definition no_context_html :: string where
  "no_context_html = ''<span style='color:red'>No specific context found</span>''"

text \<open>Lines 141-161, on the response of the service.\<close>

definition kb_answer :: "json \<Rightarrow> app_state \<Rightarrow> (exn + json) \<times> app_state" where
  "kb_answer kb_response st =
     (case try_bind (getitem_str kb_response ''output'') (\<lambda>out. getitem_str out ''text'') of
        Inl e \<Rightarrow> (Inl e, st)
      | Inr answer \<Rightarrow>
          (let st1 = logger INFO [Lit ''Successfully retrieved answer from knowledge base''] st
           in case has_first_reference kb_response of
                Inl e \<Rightarrow> (Inl e, st1)
              | Inr True \<Rightarrow>
                  (case try_bind (citation_context kb_response) (\<lambda>context.
                        try_bind (citation_source kb_response) (\<lambda>source.
                        Inr (context, source))) of
                     Inl e \<Rightarrow> (Inl e, st1)
                   | Inr (context, source) \<Rightarrow>
                       (Inr answer,
                        st_show (StMarkdown [Lit source_label, Fmt source])
                          (st_show (StMarkdown [Lit context_label, Fmt context])
                            (logger INFO [Lit ''Found context from source: '', Fmt source]
                              st1))))
              | Inr False \<Rightarrow>
                  (Inr answer,
                   st_show (StMarkdown [Lit no_context_html])
                     (logger WARNING
                        [Lit ''No specific context found in knowledge base response''] st1))))"

text \<open>Line 135, the f-string of the model ARN.\<close>

definition model_arn :: "environ \<Rightarrow> string" where
  "model_arn env =
     ''arn:aws:bedrock:'' @ fmt_opt (getenv env ''AWS_REGION'')
     @ ''::foundation-model/'' @ fmt_opt (getenv env ''MODEL_ID'')"

text \<open>The \<^verbatim>\<open>try\<close> block, lines 129-161.\<close>

definition get_kb_response_try ::
  "environ \<Rightarrow> clients \<Rightarrow> string \<Rightarrow> app_state \<Rightarrow> (exn + json) \<times> app_state" where
  "get_kb_response_try env cl query st =
     (case bedrock_agent cl of
        None \<Rightarrow> (Inl (NameError ''bedrock_agent''), st)
      | Some retrieve_and_generate \<Rightarrow>
          (let kb_id = getenv env ''KNOWLEDGE_BASE_ID'';
               st1 = record_call (RetrieveAndGenerate query kb_id (model_arn env)) st
           in case retrieve_and_generate query kb_id (model_arn env) of
                Inl e \<Rightarrow> (Inl e, st1)
              | Inr kb_response \<Rightarrow> kb_answer kb_response st1))"

definition get_kb_response ::
  "environ \<Rightarrow> clients \<Rightarrow> string \<Rightarrow> app_state \<Rightarrow> json \<times> app_state" where
  "get_kb_response env cl query st =
     (case get_kb_response_try env cl query
             (logger INFO [Lit (''Getting knowledge base response for query: '' @ query)] st) of
        (Inr answer, st1) \<Rightarrow> (answer, st1)
      | (Inl e, st1) \<Rightarrow> (JStr '''', report_error ''Knowledge base error: '' e st1))"

section \<open>\<^verbatim>\<open>get_generic_response\<close> (lines 170-217)\<close>

definition generic_request :: "string \<Rightarrow> json" where
  "generic_request query =
     JObj [(''schemaVersion'', JStr ''messages-v1''),
           (''messages'',
              JArr [JObj [(''role'', JStr ''user''),
                          (''content'', JArr [JObj [(''text'', JStr query)]])]]),
           (''system'',
              JArr [JObj [(''text'',
                JStr ''You are a helpful assistant. Please provide a clear, professional answer.'')]]),
           (''inferenceConfig'',
              JObj [(''max_new_tokens'', JInt 500), (''top_p'', JFloat 0.9),
                    (''top_k'', JInt 20), (''temperature'', JFloat 0.7)])]"

text \<open>The \<^verbatim>\<open>try\<close> block, lines 176-210.\<close>

definition get_generic_response_try ::
  "environ \<Rightarrow> clients \<Rightarrow> string \<Rightarrow> app_state \<Rightarrow> (exn + string) \<times> app_state" where
  "get_generic_response_try env cl query st =
     (case bedrock_runtime cl of
        None \<Rightarrow> (Inl (NameError ''bedrock_runtime''), st)
      | Some invoke_model \<Rightarrow>
          (let request_body = generic_request query;
               model_id = getenv env ''MODEL_ID'';
               st1 = record_call (InvokeModel model_id request_body) st
           in case try_bind (invoke_model model_id request_body) extract_text of
                Inl e \<Rightarrow> (Inl e, st1)
              | Inr result \<Rightarrow>
                  (Inr result,
                   logger INFO [Lit ''Successfully generated generic response''] st1)))"

text \<open>The string the function returns is the value \<open>JStr\<close> of it.\<close>

definition get_generic_response ::
  "environ \<Rightarrow> clients \<Rightarrow> string \<Rightarrow> app_state \<Rightarrow> json \<times> app_state" where
  "get_generic_response env cl query st =
     (case get_generic_response_try env cl query
             (logger INFO [Lit (''Getting generic response for query: '' @ query)] st) of
        (Inr result, st1) \<Rightarrow> (JStr result, st1)
      | (Inl e, st1) \<Rightarrow> (JStr '''', report_error ''Generic response error: '' e st1))"

section \<open>The chat handler (lines 219-247)\<close>

text \<open>Lines 220-227: the query is shown and appended to the history.\<close>

definition begin_turn :: "string \<Rightarrow> app_state \<Rightarrow> app_state" where
  "begin_turn query st =
     st_show (StChatMessage ''assistant'')
       (history_append \<lparr>role = ''user'', content = JStr query\<rparr>
         (st_show (StMarkdown [Lit query])
           (st_show (StChatMessage ''user'')
             (logger INFO [Lit (''New query received: '' @ query)] st))))"

text \<open>Lines 230-233: the classification is appended to the history.\<close>

definition note_category :: "string \<Rightarrow> app_state \<Rightarrow> app_state" where
  "note_category category st =
     logger INFO [Lit (''Query classification added to chat history: '' @ category)]
       (history_append \<lparr>role = ''system'', content = JStr (''Classified as: '' @ category)\<rparr>
         st)"

text \<open>Lines 235-240.\<close>

definition dispatch ::
  "environ \<Rightarrow> clients \<Rightarrow> string \<Rightarrow> string \<Rightarrow> app_state \<Rightarrow> json \<times> app_state" where
  "dispatch env cl query category st =
     (if category = ''Product'' then
        get_kb_response env cl query
          (logger INFO [Lit ''Processing product-specific query''] st)
      else
        get_generic_response env cl query
          (logger INFO [Lit ''Processing generic query''] st))"

text \<open>Lines 242-247.\<close>

definition finish_turn :: "json \<Rightarrow> app_state \<Rightarrow> app_state" where
  "finish_turn response st =
     (if truthy response then
        logger INFO [Lit ''Assistant response added to chat history'']
          (history_append \<lparr>role = ''assistant'', content = response\<rparr>
            (st_show (StMarkdown [Fmt response]) st))
      else logger WARNING [Lit ''No response generated''] st)"

text \<open>
  The response of a turn and the state after lines 220-240, for a query that was
  entered.
\<close>

definition turn_response ::
  "(string \<Rightarrow> string) \<Rightarrow> environ \<Rightarrow> clients \<Rightarrow> string \<Rightarrow> app_state \<Rightarrow>
     json \<times> app_state" where
  "turn_response str_lower env cl query st =
     (case classify_query str_lower env cl query (begin_turn query st) of
        (category, st1) \<Rightarrow> dispatch env cl query category (note_category category st1))"

text \<open>
  \<^verbatim>\<open>if query := st.chat_input(...)\<close>: the input is \<^verbatim>\<open>None\<close> when nothing was entered, and
  the block runs for a string that is not empty.
\<close>

definition handle_turn ::
  "(string \<Rightarrow> string) \<Rightarrow> environ \<Rightarrow> clients \<Rightarrow> string option \<Rightarrow> app_state \<Rightarrow>
     app_state" where
  "handle_turn str_lower env cl chat_input st =
     (case chat_input of
        None \<Rightarrow> st
      | Some query \<Rightarrow>
          if query = [] then st
          else (case turn_response str_lower env cl query st of
                  (response, st1) \<Rightarrow> finish_turn response st1))"

section \<open>One run of the script (lines 21-247)\<close>

text \<open>
  Streamlit runs the script from its first line for every input. The chat history of
  the state is the one of the session; \<open>fresh\<close> says that the session has none yet,
  which is the first run of a session (lines 40-42). The sidebar, lines 249-258, comes
  after the handler and is not part of the model. A run that raises ends there: \<open>Inl\<close>
  is the exception of line 34.
\<close>

text \<open>Lines 40-42.\<close>

definition init_session :: "bool \<Rightarrow> app_state \<Rightarrow> app_state" where
  "init_session fresh st =
     (if fresh then logger INFO [Lit ''Chat history initialized''] (st\<lparr>chat_history := []\<rparr>)
      else st)"

definition script_run ::
  "(string \<Rightarrow> string) \<Rightarrow> environ \<Rightarrow> boto3 \<Rightarrow> bool \<Rightarrow> string option \<Rightarrow> app_state \<Rightarrow>
     (exn + unit) \<times> app_state" where
  "script_run str_lower env b fresh chat_input st =
     (case validate_env env (logger INFO [Lit ''Environment variables loaded''] st) of
        (Inl e, st1) \<Rightarrow> (Inl e, st1)
      | (Inr _, st1) \<Rightarrow>
          (let st2 = init_session fresh
                       (st_show (StSubheader ''Chat Interface'')
                         (st_show (StTitle (getenv env ''APP_TITLE'')) st1))
           in case init_clients b st2 of
                (cl, st3) \<Rightarrow> (Inr (), handle_turn str_lower env cl chat_input st3)))"

section \<open>Notions used in the statements\<close>

text \<open>
  The first statement of \<^verbatim>\<open>get_kb_response\<close> logs a line that begins with
  "Getting knowledge base response for query: ", and the first statement of
  \<^verbatim>\<open>get_generic_response\<close> one that begins with "Getting generic response for query: "
  (lines 127 and 174). No other statement of the script logs such a line, so these
  lines of the log are the invocations of the two functions.
\<close>

definition kb_invoked :: "level \<times> fstring \<Rightarrow> bool" where
  "kb_invoked entry =
     (case entry of
        (INFO, [Lit s]) \<Rightarrow> prefix ''Getting knowledge base response for query: '' s
      | _ \<Rightarrow> False)"

definition generic_invoked :: "level \<times> fstring \<Rightarrow> bool" where
  "generic_invoked entry =
     (case entry of
        (INFO, [Lit s]) \<Rightarrow> prefix ''Getting generic response for query: '' s
      | _ \<Rightarrow> False)"

text \<open>
  A content fragment of a text-generation response is a dictionary whose \<^verbatim>\<open>text\<close>
  member, when it has one, is a string; \<open>text_field\<close> is that string.
\<close>

definition fragment :: "json \<Rightarrow> bool" where
  "fragment item =
     (case item of
        JObj d \<Rightarrow>
          (case map_of d ''text'' of None \<Rightarrow> True | Some (JStr s) \<Rightarrow> True | Some _ \<Rightarrow> False)
      | _ \<Rightarrow> False)"

definition text_field :: "json \<Rightarrow> string option" where
  "text_field item =
     (case item of
        JObj d \<Rightarrow> (case map_of d ''text'' of Some (JStr s) \<Rightarrow> Some s | _ \<Rightarrow> None)
      | _ \<Rightarrow> None)"

text \<open>The body of a text-generation response with the given content.\<close>

definition model_body :: "json list \<Rightarrow> json" where
  "model_body items =
     JObj [(''output'',
            JObj [(''message'',
                   JObj [(''role'', JStr ''assistant''), (''content'', JArr items)])])]"

text \<open>
  What \<^verbatim>\<open>str.lower()\<close> does to ASCII text, in every version of the interpreter: the
  letters A to Z (codes 65 to 90) become a to z (the code plus 32) and every other
  character is kept. \<open>lowers_ascii\<close> says that a lower-casing function does so.
\<close>

definition upper_case :: "char \<Rightarrow> bool" where
  "upper_case c = (65 \<le> (of_char c :: nat) \<and> (of_char c :: nat) \<le> 90)"

definition ascii_lower_char :: "char \<Rightarrow> char" where
  "ascii_lower_char c = (if upper_case c then char_of (of_char c + 32 :: nat) else c)"

definition ascii_lower :: "string \<Rightarrow> string" where
  "ascii_lower s = map ascii_lower_char s"

definition ascii :: "string \<Rightarrow> bool" where
  "ascii s = list_all (\<lambda>c. (of_char c :: nat) < 128) s"

definition lowers_ascii :: "(string \<Rightarrow> string) \<Rightarrow> bool" where
  "lowers_ascii str_lower = (\<forall>s. ascii s \<longrightarrow> str_lower s = ascii_lower s)"

text \<open>
  Two characters are the same letter when they are equal or one is an upper-case
  letter and the other its lower-case form. Two strings are the same but for case when
  they have the same length and the same letters position by position
  (\<open>list_all2 same_letter\<close>).
\<close>

definition same_letter :: "char \<Rightarrow> char \<Rightarrow> bool" where
  "same_letter a b =
     (a = b \<or> upper_case a \<and> (of_char b :: nat) = of_char a + 32
            \<or> upper_case b \<and> (of_char a :: nat) = of_char b + 32)"

text \<open>
  Sample values: the state of a new session, and a client of the text model that
  answers every request with one body.
\<close>

definition new_session :: app_state where
  "new_session = \<lparr>chat_history = [], ui = [], logged = [], calls = []\<rparr>"

definition answering :: "json \<Rightarrow> invoke_model_fn" where
  "answering body = (\<lambda>model_id request_body. Inr body)"

text \<open>A client library that fails to create either client.\<close>

definition no_clients :: boto3 where
  "no_clients =
     \<lparr>runtime_client = Inl (ClientError ''no credentials''),
      agent_client = Inl (ClientError ''no credentials'')\<rparr>"

text \<open>A client of the text model whose every call raises.\<close>

definition raising :: "exn \<Rightarrow> invoke_model_fn" where
  "raising e = (\<lambda>model_id request_body. Inl e)"

text \<open>
  The values of the end-to-end scenario: the environment with the product name
  "WidgetPro", the query, the response of the knowledge base, and a knowledge-base
  client that answers every request with one response.
\<close>

definition widget_env :: environ where
  "widget_env =
     [''AWS_REGION'' \<mapsto> ''us-east-1'', ''AWS_ACCESS_KEY_ID'' \<mapsto> ''id'',
      ''AWS_SECRET_ACCESS_KEY'' \<mapsto> ''key'', ''MODEL_ID'' \<mapsto> ''nova'',
      ''KNOWLEDGE_BASE_ID'' \<mapsto> ''kb'', ''PRODUCT_NAME'' \<mapsto> ''WidgetPro'',
      ''APP_TITLE'' \<mapsto> ''Assistant'']"

definition reset_query :: string where
  "reset_query = ''How do I reset my device?''"

definition reset_kb_response :: json where
  "reset_kb_response =
     JObj [(''output'', JObj [(''text'', JStr ''Hold power for 10s.'')]),
           (''citations'',
              JArr [JObj [(''retrievedReferences'',
                JArr [JObj [(''content'', JObj [(''text'', JStr ''Reset instructions...'')]),
                            (''location'',
                               JObj [(''s3Location'',
                                      JObj [(''uri'', JStr ''s3://docs/reset.txt'')])])]])]])]"

definition retrieving :: "json \<Rightarrow> retrieve_and_generate_fn" where
  "retrieving kb_response = (\<lambda>input_text kb_id arn. Inr kb_response)"

text \<open>
  Two more responses of the knowledge base. The first has two citations, and two
  references in the first of them. The second has one citation with one reference whose
  source is a web page: its location has no \<^verbatim>\<open>s3Location\<close>.
\<close>

definition reset_kb_response_more :: json where
  "reset_kb_response_more =
     JObj [(''output'', JObj [(''text'', JStr ''Hold power for 10s.'')]),
           (''citations'',
              JArr [JObj [(''retrievedReferences'',
                      JArr [JObj [(''content'', JObj [(''text'', JStr ''Reset instructions...'')]),
                                  (''location'',
                                     JObj [(''s3Location'',
                                            JObj [(''uri'', JStr ''s3://docs/reset.txt'')])])],
                            JObj [(''content'', JObj [(''text'', JStr ''Battery care'')]),
                                  (''location'',
                                     JObj [(''s3Location'',
                                            JObj [(''uri'', JStr ''s3://docs/battery.txt'')])])]])],
                    JObj [(''retrievedReferences'',
                      JArr [JObj [(''content'', JObj [(''text'', JStr ''Warranty terms'')]),
                                  (''location'',
                                     JObj [(''s3Location'',
                                            JObj [(''uri'', JStr ''s3://docs/warranty.txt'')])])]])]])]"

definition web_kb_response :: json where
  "web_kb_response =
     JObj [(''output'', JObj [(''text'', JStr ''Hold power for 10s.'')]),
           (''citations'',
              JArr [JObj [(''retrievedReferences'',
                      JArr [JObj [(''content'', JObj [(''text'', JStr ''Reset instructions...'')]),
                                  (''location'',
                                     JObj [(''type'', JStr ''WEB''),
                                           (''webLocation'',
                                            JObj [(''url'', JStr ''https://docs.example/reset'')])])]])]])]"

section \<open>Basic facts\<close>

lemma try_bind_Inr [simp]: "try_bind (Inr x) f = f x"
  by (simp add: try_bind_def)

lemma try_bind_Inl [simp]: "try_bind (Inl e) f = Inl e"
  by (simp add: try_bind_def)

lemma logger_fields [simp]:
  "logged (logger l m st) = logged st @ [(l, m)]"
  "ui (logger l m st) = ui st"
  "chat_history (logger l m st) = chat_history st"
  "calls (logger l m st) = calls st"
  by (simp_all add: logger_def)

lemma st_show_fields [simp]:
  "logged (st_show ev st) = logged st"
  "ui (st_show ev st) = ui st @ [ev]"
  "chat_history (st_show ev st) = chat_history st"
  "calls (st_show ev st) = calls st"
  by (simp_all add: st_show_def)

lemma history_append_fields [simp]:
  "logged (history_append m st) = logged st"
  "ui (history_append m st) = ui st"
  "chat_history (history_append m st) = chat_history st @ [m]"
  "calls (history_append m st) = calls st"
  by (simp_all add: history_append_def)

lemma record_call_fields [simp]:
  "logged (record_call c st) = logged st"
  "ui (record_call c st) = ui st"
  "chat_history (record_call c st) = chat_history st"
  "calls (record_call c st) = calls st @ [c]"
  by (simp_all add: record_call_def)

lemma report_error_fields [simp]:
  "logged (report_error p e st) =
     logged st @ [(ERROR, [Lit p, StrExn e]), (ERROR, [FormatExc e])]"
  "ui (report_error p e st) = ui st @ [StError [Lit p, StrExn e]]"
  "chat_history (report_error p e st) = chat_history st"
  "calls (report_error p e st) = calls st"
  by (simp_all add: report_error_def)

lemma kb_invoked_simps [simp]:
  "kb_invoked (ERROR, m) = False"
  "kb_invoked (WARNING, m) = False"
  "kb_invoked (INFO, [Lit s]) = prefix ''Getting knowledge base response for query: '' s"
  "kb_invoked (l, x # y # zs) = False"
  by (simp_all add: kb_invoked_def split: level.splits part.splits list.splits)

lemma generic_invoked_simps [simp]:
  "generic_invoked (ERROR, m) = False"
  "generic_invoked (WARNING, m) = False"
  "generic_invoked (INFO, [Lit s]) = prefix ''Getting generic response for query: '' s"
  "generic_invoked (l, x # y # zs) = False"
  by (simp_all add: generic_invoked_def split: level.splits part.splits list.splits)

subsection \<open>The extraction of the text\<close>

lemma text_field_JObj:
  "text_field (JObj d) =
     (case map_of d ''text'' of Some (JStr s) \<Rightarrow> Some s | _ \<Rightarrow> None)"
  by (simp add: text_field_def)

lemma text_items_fragments:
  "\<forall>item \<in> set items. fragment item \<Longrightarrow>
   text_items items = Inr (map JStr (List.map_filter text_field items))"
proof (induction items)
  case Nil
  then show ?case by simp
next
  case (Cons item rest)
  then obtain d where d: "item = JObj d"
    by (cases item) (auto simp: fragment_def)
  from Cons have rest: "text_items rest = Inr (map JStr (List.map_filter text_field rest))"
    by simp
  show ?case
  proof (cases "map_of d ''text''")
    case None
    then have "''text'' \<notin> fst ` set d"
      by (simp add: map_of_eq_None_iff)
    with d None rest show ?thesis
      by (simp add: text_field_JObj)
  next
    case (Some v)
    then have "''text'' \<in> fst ` set d"
      by (force dest: map_of_SomeD)
    moreover from Cons.prems d Some obtain s where "v = JStr s"
      by (cases v) (auto simp: fragment_def)
    ultimately show ?thesis
      using d Some rest by (simp add: text_field_JObj)
  qed
qed

lemma join_empty_strs: "join_empty (map JStr ss) = Inr (concat ss)"
  by (induction ss) auto

lemma extract_text_fragments:
  assumes "getitem_str response_body ''output'' = Inr out"
    and "getitem_str out ''message'' = Inr msg"
    and "getitem_str msg ''content'' = Inr (JArr items)"
    and "\<forall>item \<in> set items. fragment item"
  shows "extract_text response_body = Inr (concat (List.map_filter text_field items))"
  using assms by (simp add: extract_text_def text_items_fragments join_empty_strs)

lemma extract_text_model_body:
  "\<forall>item \<in> set items. fragment item \<Longrightarrow>
   extract_text (model_body items) = Inr (concat (List.map_filter text_field items))"
  by (rule extract_text_fragments [where out = "JObj [(''message'',
          JObj [(''role'', JStr ''assistant''), (''content'', JArr items)])]"
        and msg = "JObj [(''role'', JStr ''assistant''), (''content'', JArr items)]"])
     (simp_all add: model_body_def)

subsection \<open>The three functions, by the result of their \<^verbatim>\<open>try\<close> block\<close>

lemma classify_query_unfold:
  "classify_query str_lower env cl q st =
     (case fst (classify_query_try str_lower env cl q
                  (logger INFO [Lit (''Classifying query: '' @ q)] st)) of
        Inr c \<Rightarrow>
          (c, snd (classify_query_try str_lower env cl q
                     (logger INFO [Lit (''Classifying query: '' @ q)] st)))
      | Inl e \<Rightarrow>
          (''Generic'',
           report_error ''Classification error: '' e
             (snd (classify_query_try str_lower env cl q
                     (logger INFO [Lit (''Classifying query: '' @ q)] st)))))"
  by (simp add: classify_query_def split: prod.splits sum.splits)

lemma get_kb_response_unfold:
  "get_kb_response env cl q st =
     (case fst (get_kb_response_try env cl q
                  (logger INFO [Lit (''Getting knowledge base response for query: '' @ q)] st)) of
        Inr answer \<Rightarrow>
          (answer,
           snd (get_kb_response_try env cl q
                  (logger INFO [Lit (''Getting knowledge base response for query: '' @ q)] st)))
      | Inl e \<Rightarrow>
          (JStr [],
           report_error ''Knowledge base error: '' e
             (snd (get_kb_response_try env cl q
                     (logger INFO [Lit (''Getting knowledge base response for query: '' @ q)] st)))))"
  by (simp add: get_kb_response_def split: prod.splits sum.splits)

lemma get_generic_response_unfold:
  "get_generic_response env cl q st =
     (case fst (get_generic_response_try env cl q
                  (logger INFO [Lit (''Getting generic response for query: '' @ q)] st)) of
        Inr result \<Rightarrow>
          (JStr result,
           snd (get_generic_response_try env cl q
                  (logger INFO [Lit (''Getting generic response for query: '' @ q)] st)))
      | Inl e \<Rightarrow>
          (JStr [],
           report_error ''Generic response error: '' e
             (snd (get_generic_response_try env cl q
                     (logger INFO [Lit (''Getting generic response for query: '' @ q)] st)))))"
  by (simp add: get_generic_response_def split: prod.splits sum.splits)

lemma classify_query_try_result:
  "bedrock_runtime cl = Some im \<Longrightarrow>
   fst (classify_query_try str_lower env cl q st) =
     try_bind (im (getenv env ''MODEL_ID'') (classify_request env q)) (\<lambda>body.
     try_bind (extract_text body) (\<lambda>result.
       case getenv env ''PRODUCT_NAME'' of
         None \<Rightarrow> Inl AttributeError
       | Some product_name \<Rightarrow>
           Inr (if sublist (str_lower product_name) (str_lower result)
                then ''Product'' else ''Generic'')))"
  by (simp add: classify_query_try_def Let_def try_bind_def split: sum.splits option.splits)

lemma get_generic_response_try_result:
  "bedrock_runtime cl = Some im \<Longrightarrow>
   fst (get_generic_response_try env cl q st) =
     try_bind (im (getenv env ''MODEL_ID'') (generic_request q)) extract_text"
  by (simp add: get_generic_response_try_def Let_def split: sum.splits)

subsection \<open>Lower-casing of ASCII text\<close>

lemma capitals: "map char_of [65..<91::nat] = ''ABCDEFGHIJKLMNOPQRSTUVWXYZ''"
  by code_simp

lemma upper_case_capital: "upper_case c \<Longrightarrow> c \<in> set ''ABCDEFGHIJKLMNOPQRSTUVWXYZ''"
proof -
  assume "upper_case c"
  then have "65 \<le> (of_char c :: nat) \<and> (of_char c :: nat) < 91"
    by (simp add: upper_case_def)
  then have "(of_char c :: nat) \<in> set [65..<91]"
    by (simp only: set_upt atLeastLessThan_iff)
  then have "char_of (of_char c :: nat) \<in> set (map char_of [65..<91::nat])"
    by (simp only: set_map) (rule imageI)
  then show ?thesis
    by (simp only: capitals char_of_char)
qed

lemma ascii_lower_char_kept:
  "c \<notin> set ''ABCDEFGHIJKLMNOPQRSTUVWXYZ'' \<Longrightarrow> ascii_lower_char c = c"
  using upper_case_capital [of c] by (auto simp: ascii_lower_char_def)

lemma ascii_lower_capitals:
  "ascii_lower ''ABCDEFGHIJKLMNOPQRSTUVWXYZ'' = ''abcdefghijklmnopqrstuvwxyz''"
  by code_simp

lemma lowers_ascii_ascii_lower: "lowers_ascii ascii_lower"
  by (simp add: lowers_ascii_def)

lemma lowers_asciiD: "lowers_ascii str_lower \<Longrightarrow> ascii s \<Longrightarrow> str_lower s = ascii_lower s"
  by (simp add: lowers_ascii_def)

lemma of_char_ascii_lower_char:
  "(of_char (ascii_lower_char c) :: nat) = (if upper_case c then of_char c + 32 else of_char c)"
  by (simp add: ascii_lower_char_def upper_case_def)

lemma ascii_lower_char_eq_iff:
  "ascii_lower_char a = ascii_lower_char b \<longleftrightarrow> same_letter a b"
proof -
  have "ascii_lower_char a = ascii_lower_char b \<longleftrightarrow>
        (of_char (ascii_lower_char a) :: nat) = of_char (ascii_lower_char b)"
    by simp
  also have "\<dots> \<longleftrightarrow> same_letter a b"
    unfolding of_char_ascii_lower_char same_letter_def upper_case_def
    using of_char_eq_iff [of a b, where ?'a = nat]
    by auto
  finally show ?thesis .
qed

lemma ascii_lower_eq_iff:
  "ascii_lower xs = ascii_lower ys \<longleftrightarrow> list_all2 same_letter xs ys"
  unfolding ascii_lower_def
proof (induction xs arbitrary: ys)
  case Nil
  then show ?case by auto
next
  case (Cons x xs)
  then show ?case
    by (cases ys) (auto simp: ascii_lower_char_eq_iff)
qed

lemma sublist_ascii_lower_iff:
  "sublist (ascii_lower name) (ascii_lower result) \<longleftrightarrow>
     (\<exists>before middle after.
        result = before @ middle @ after \<and> list_all2 same_letter middle name)"
proof
  assume "sublist (ascii_lower name) (ascii_lower result)"
  then obtain ps ss where "map ascii_lower_char result = ps @ map ascii_lower_char name @ ss"
    by (auto simp: sublist_def ascii_lower_def)
  then obtain before rest where r: "result = before @ rest"
      and "map ascii_lower_char name @ ss = map ascii_lower_char rest"
    by (auto simp: map_eq_append_conv)
  then obtain middle after where "rest = middle @ after"
      and "map ascii_lower_char middle = map ascii_lower_char name"
    by (auto simp: append_eq_map_conv)
  with r have "result = before @ middle @ after \<and> list_all2 same_letter middle name"
    by (simp add: ascii_lower_eq_iff [unfolded ascii_lower_def])
  then show "\<exists>before middle after.
               result = before @ middle @ after \<and> list_all2 same_letter middle name"
    by blast
next
  assume "\<exists>before middle after.
            result = before @ middle @ after \<and> list_all2 same_letter middle name"
  then obtain before middle after where "result = before @ middle @ after"
      and "ascii_lower middle = ascii_lower name"
    by (auto simp: ascii_lower_eq_iff)
  then have "ascii_lower result = ascii_lower before @ ascii_lower name @ ascii_lower after"
    by (simp add: ascii_lower_def)
  then show "sublist (ascii_lower name) (ascii_lower result)"
    unfolding sublist_def by blast
qed

subsection \<open>Startup\<close>

lemma sublist_join: "v \<in> set xs \<Longrightarrow> sublist v (join sep xs)"
proof (induction sep xs rule: join.induct)
  case (1 sep)
  then show ?case by simp
next
  case (2 sep x)
  then show ?case by simp
next
  case (3 sep x y ys)
  show ?case
  proof (cases "v = x")
    case True
    then show ?thesis by simp
  next
    case False
    with 3 have "sublist v (join sep (y # ys))" by simp
    then obtain ps ss where "join sep (y # ys) = ps @ v @ ss"
      by (auto simp: sublist_def)
    then have "join sep (x # y # ys) = (x @ sep @ ps) @ v @ ss" by simp
    then show ?thesis unfolding sublist_def by blast
  qed
qed

lemma missing_vars_iff:
  "var \<in> set (missing_vars env) \<longleftrightarrow>
     var \<in> set required_env_vars \<and> \<not> env_truthy (getenv env var)"
  by (auto simp: missing_vars_def)

lemma script_run_invalid:
  "missing_vars env \<noteq> [] \<Longrightarrow>
   script_run str_lower env b fresh chat_input st =
     (Inl (ValueError (missing_error_msg env)),
      logger ERROR [Lit (missing_error_msg env)]
        (logger INFO [Lit ''Environment variables loaded''] st))"
  by (simp add: script_run_def validate_env_def)

subsection \<open>What the three functions leave in the state\<close>

lemma classify_query_try_state:
  "filter kb_invoked (logged (snd (classify_query_try str_lower env cl q st))) =
     filter kb_invoked (logged st)"
  "filter generic_invoked (logged (snd (classify_query_try str_lower env cl q st))) =
     filter generic_invoked (logged st)"
  "chat_history (snd (classify_query_try str_lower env cl q st)) = chat_history st"
  "ui (snd (classify_query_try str_lower env cl q st)) = ui st"
  "calls (snd (classify_query_try str_lower env cl q st)) =
     calls st @ (case bedrock_runtime cl of
                   None \<Rightarrow> []
                 | Some im \<Rightarrow> [InvokeModel (getenv env ''MODEL_ID'') (classify_request env q)])"
  by (simp_all add: classify_query_try_def Let_def split: option.splits sum.splits)

lemma classify_query_try_fst:
  "fst (classify_query_try str_lower env cl q st) = fst (classify_query_try str_lower env cl q st')"
  by (simp add: classify_query_try_def Let_def split: option.splits sum.splits)

lemma classify_query_state:
  "filter kb_invoked (logged (snd (classify_query str_lower env cl q st))) =
     filter kb_invoked (logged st)"
  "filter generic_invoked (logged (snd (classify_query str_lower env cl q st))) =
     filter generic_invoked (logged st)"
  "chat_history (snd (classify_query str_lower env cl q st)) = chat_history st"
  "calls (snd (classify_query str_lower env cl q st)) =
     calls st @ (case bedrock_runtime cl of
                   None \<Rightarrow> []
                 | Some im \<Rightarrow> [InvokeModel (getenv env ''MODEL_ID'') (classify_request env q)])"
  by (simp_all add: classify_query_unfold classify_query_try_state split: sum.splits)

lemma classify_query_ui:
  "ui (snd (classify_query str_lower env cl q st)) =
     ui st @ (case fst (classify_query_try str_lower env cl q st) of
                Inl e \<Rightarrow> [StError [Lit ''Classification error: '', StrExn e]]
              | Inr c \<Rightarrow> [])"
  using classify_query_try_fst [of str_lower env cl q st "logger INFO [Lit (''Classifying query: '' @ q)] st"]
  by (simp add: classify_query_unfold classify_query_try_state split: sum.splits)

lemma classify_query_fst:
  "fst (classify_query str_lower env cl q st) =
     (case fst (classify_query_try str_lower env cl q st') of Inl e \<Rightarrow> ''Generic'' | Inr c \<Rightarrow> c)"
  using classify_query_try_fst [of str_lower env cl q st' "logger INFO [Lit (''Classifying query: '' @ q)] st"]
  by (simp add: classify_query_unfold split: sum.splits)

lemma kb_answer_state:
  "filter kb_invoked (logged (snd (kb_answer r st))) = filter kb_invoked (logged st)"
  "filter generic_invoked (logged (snd (kb_answer r st))) = filter generic_invoked (logged st)"
  "chat_history (snd (kb_answer r st)) = chat_history st"
  "calls (snd (kb_answer r st)) = calls st"
  by (simp_all add: kb_answer_def Let_def split: sum.splits bool.splits prod.splits)

lemma kb_answer_fst: "fst (kb_answer r st) = fst (kb_answer r st')"
  by (simp add: kb_answer_def Let_def split: sum.splits bool.splits prod.splits)

lemma kb_answer_ui_Inl: "fst (kb_answer r st) = Inl e \<Longrightarrow> ui (snd (kb_answer r st)) = ui st"
  by (simp add: kb_answer_def Let_def split: sum.splits bool.splits prod.splits)

lemma get_kb_response_try_state:
  "filter kb_invoked (logged (snd (get_kb_response_try env cl q st))) =
     filter kb_invoked (logged st)"
  "filter generic_invoked (logged (snd (get_kb_response_try env cl q st))) =
     filter generic_invoked (logged st)"
  "chat_history (snd (get_kb_response_try env cl q st)) = chat_history st"
  "calls (snd (get_kb_response_try env cl q st)) =
     calls st @ (case bedrock_agent cl of
                   None \<Rightarrow> []
                 | Some rag \<Rightarrow>
                     [RetrieveAndGenerate q (getenv env ''KNOWLEDGE_BASE_ID'')
                        (model_arn env)])"
  by (simp_all add: get_kb_response_try_def Let_def kb_answer_state
      split: option.splits sum.splits)

lemma get_kb_response_try_fst:
  "fst (get_kb_response_try env cl q st) = fst (get_kb_response_try env cl q st')"
  using kb_answer_fst
  by (simp add: get_kb_response_try_def Let_def split: option.splits sum.splits)

lemma get_kb_response_try_ui_Inl:
  "fst (get_kb_response_try env cl q st) = Inl e \<Longrightarrow>
   ui (snd (get_kb_response_try env cl q st)) = ui st"
  by (auto simp: get_kb_response_try_def Let_def kb_answer_ui_Inl
      split: option.splits sum.splits)

lemma get_kb_response_state:
  "filter kb_invoked (logged (snd (get_kb_response env cl q st))) =
     filter kb_invoked (logged st) @
       [(INFO, [Lit (''Getting knowledge base response for query: '' @ q)])]"
  "filter generic_invoked (logged (snd (get_kb_response env cl q st))) =
     filter generic_invoked (logged st)"
  "chat_history (snd (get_kb_response env cl q st)) = chat_history st"
  "calls (snd (get_kb_response env cl q st)) =
     calls st @ (case bedrock_agent cl of
                   None \<Rightarrow> []
                 | Some rag \<Rightarrow>
                     [RetrieveAndGenerate q (getenv env ''KNOWLEDGE_BASE_ID'')
                        (model_arn env)])"
  by (simp_all add: get_kb_response_unfold get_kb_response_try_state split: sum.splits)

lemma get_kb_response_fst:
  "fst (get_kb_response env cl q st) =
     (case fst (get_kb_response_try env cl q st') of Inl e \<Rightarrow> JStr [] | Inr a \<Rightarrow> a)"
  using get_kb_response_try_fst
    [of env cl q st' "logger INFO [Lit (''Getting knowledge base response for query: '' @ q)] st"]
  by (simp add: get_kb_response_unfold split: sum.splits)

lemma get_generic_response_try_state:
  "filter kb_invoked (logged (snd (get_generic_response_try env cl q st))) =
     filter kb_invoked (logged st)"
  "filter generic_invoked (logged (snd (get_generic_response_try env cl q st))) =
     filter generic_invoked (logged st)"
  "chat_history (snd (get_generic_response_try env cl q st)) = chat_history st"
  "ui (snd (get_generic_response_try env cl q st)) = ui st"
  "calls (snd (get_generic_response_try env cl q st)) =
     calls st @ (case bedrock_runtime cl of
                   None \<Rightarrow> []
                 | Some im \<Rightarrow> [InvokeModel (getenv env ''MODEL_ID'') (generic_request q)])"
  by (simp_all add: get_generic_response_try_def Let_def split: option.splits sum.splits)

lemma get_generic_response_try_fst:
  "fst (get_generic_response_try env cl q st) = fst (get_generic_response_try env cl q st')"
  by (simp add: get_generic_response_try_def Let_def split: option.splits sum.splits)

lemma get_generic_response_state:
  "filter kb_invoked (logged (snd (get_generic_response env cl q st))) =
     filter kb_invoked (logged st)"
  "filter generic_invoked (logged (snd (get_generic_response env cl q st))) =
     filter generic_invoked (logged st) @
       [(INFO, [Lit (''Getting generic response for query: '' @ q)])]"
  "chat_history (snd (get_generic_response env cl q st)) = chat_history st"
  "calls (snd (get_generic_response env cl q st)) =
     calls st @ (case bedrock_runtime cl of
                   None \<Rightarrow> []
                 | Some im \<Rightarrow> [InvokeModel (getenv env ''MODEL_ID'') (generic_request q)])"
  by (simp_all add: get_generic_response_unfold get_generic_response_try_state
      split: sum.splits)

lemma get_generic_response_fst:
  "fst (get_generic_response env cl q st) =
     (case fst (get_generic_response_try env cl q st') of
        Inl e \<Rightarrow> JStr []
      | Inr result \<Rightarrow> JStr result)"
  using get_generic_response_try_fst
    [of env cl q st' "logger INFO [Lit (''Getting generic response for query: '' @ q)] st"]
  by (simp add: get_generic_response_unfold split: sum.splits)

lemma get_generic_response_ui:
  "ui (snd (get_generic_response env cl q st)) =
     ui st @ (case fst (get_generic_response_try env cl q st) of
                Inl e \<Rightarrow> [StError [Lit ''Generic response error: '', StrExn e]]
              | Inr result \<Rightarrow> [])"
  using get_generic_response_try_fst
    [of env cl q st "logger INFO [Lit (''Getting generic response for query: '' @ q)] st"]
  by (simp add: get_generic_response_unfold get_generic_response_try_state split: sum.splits)

subsection \<open>The handler\<close>

lemma begin_turn_state:
  "filter kb_invoked (logged (begin_turn q st)) = filter kb_invoked (logged st)"
  "filter generic_invoked (logged (begin_turn q st)) = filter generic_invoked (logged st)"
  "chat_history (begin_turn q st) = chat_history st @ [\<lparr>role = ''user'', content = JStr q\<rparr>]"
  "calls (begin_turn q st) = calls st"
  "ui (begin_turn q st) =
     ui st @ [StChatMessage ''user'', StMarkdown [Lit q], StChatMessage ''assistant'']"
  by (simp_all add: begin_turn_def)

lemma note_category_state:
  "filter kb_invoked (logged (note_category c st)) = filter kb_invoked (logged st)"
  "filter generic_invoked (logged (note_category c st)) = filter generic_invoked (logged st)"
  "chat_history (note_category c st) =
     chat_history st @ [\<lparr>role = ''system'', content = JStr (''Classified as: '' @ c)\<rparr>]"
  "calls (note_category c st) = calls st"
  "ui (note_category c st) = ui st"
  by (simp_all add: note_category_def)

lemma dispatch_state:
  "filter kb_invoked (logged (snd (dispatch env cl q c st))) =
     filter kb_invoked (logged st) @
       (if c = ''Product''
        then [(INFO, [Lit (''Getting knowledge base response for query: '' @ q)])] else [])"
  "filter generic_invoked (logged (snd (dispatch env cl q c st))) =
     filter generic_invoked (logged st) @
       (if c = ''Product''
        then [] else [(INFO, [Lit (''Getting generic response for query: '' @ q)])])"
  "chat_history (snd (dispatch env cl q c st)) = chat_history st"
  "calls (snd (dispatch env cl q c st)) =
     calls st @
       (if c = ''Product'' then
          (case bedrock_agent cl of
             None \<Rightarrow> []
           | Some rag \<Rightarrow>
               [RetrieveAndGenerate q (getenv env ''KNOWLEDGE_BASE_ID'') (model_arn env)])
        else
          (case bedrock_runtime cl of
             None \<Rightarrow> []
           | Some im \<Rightarrow> [InvokeModel (getenv env ''MODEL_ID'') (generic_request q)]))"
  by (simp_all add: dispatch_def get_kb_response_state get_generic_response_state)

lemma finish_turn_state:
  "filter kb_invoked (logged (finish_turn r st)) = filter kb_invoked (logged st)"
  "filter generic_invoked (logged (finish_turn r st)) = filter generic_invoked (logged st)"
  "chat_history (finish_turn r st) =
     chat_history st @ (if truthy r then [\<lparr>role = ''assistant'', content = r\<rparr>] else [])"
  "ui (finish_turn r st) = ui st @ (if truthy r then [StMarkdown [Fmt r]] else [])"
  "calls (finish_turn r st) = calls st"
  by (simp_all add: finish_turn_def)

lemma turn_response_unfold:
  "turn_response str_lower env cl q st =
     dispatch env cl q (fst (classify_query str_lower env cl q (begin_turn q st)))
       (note_category (fst (classify_query str_lower env cl q (begin_turn q st)))
          (snd (classify_query str_lower env cl q (begin_turn q st))))"
  by (simp add: turn_response_def split: prod.splits)

lemma handle_turn_unfold:
  "q \<noteq> [] \<Longrightarrow>
   handle_turn str_lower env cl (Some q) st =
     finish_turn (fst (turn_response str_lower env cl q st)) (snd (turn_response str_lower env cl q st))"
  by (simp add: handle_turn_def split: prod.splits)

lemma turn_response_state:
  "filter kb_invoked (logged (snd (turn_response str_lower env cl q st))) =
     filter kb_invoked (logged st) @
       (if fst (classify_query str_lower env cl q (begin_turn q st)) = ''Product''
        then [(INFO, [Lit (''Getting knowledge base response for query: '' @ q)])] else [])"
  "filter generic_invoked (logged (snd (turn_response str_lower env cl q st))) =
     filter generic_invoked (logged st) @
       (if fst (classify_query str_lower env cl q (begin_turn q st)) = ''Product''
        then [] else [(INFO, [Lit (''Getting generic response for query: '' @ q)])])"
  "chat_history (snd (turn_response str_lower env cl q st)) =
     chat_history st @
       [\<lparr>role = ''user'', content = JStr q\<rparr>,
        \<lparr>role = ''system'',
         content = JStr (''Classified as: '' @ fst (classify_query str_lower env cl q (begin_turn q st)))\<rparr>]"
  "calls (snd (turn_response str_lower env cl q st)) =
     calls st @
       (case bedrock_runtime cl of
          None \<Rightarrow> []
        | Some im \<Rightarrow> [InvokeModel (getenv env ''MODEL_ID'') (classify_request env q)]) @
       (if fst (classify_query str_lower env cl q (begin_turn q st)) = ''Product'' then
          (case bedrock_agent cl of
             None \<Rightarrow> []
           | Some rag \<Rightarrow>
               [RetrieveAndGenerate q (getenv env ''KNOWLEDGE_BASE_ID'') (model_arn env)])
        else
          (case bedrock_runtime cl of
             None \<Rightarrow> []
           | Some im \<Rightarrow> [InvokeModel (getenv env ''MODEL_ID'') (generic_request q)]))"
  by (simp_all add: turn_response_unfold dispatch_state note_category_state
      classify_query_state begin_turn_state)

lemma get_kb_response_ui_Inl:
  "fst (get_kb_response_try env cl q st) = Inl e \<Longrightarrow>
   ui (snd (get_kb_response env cl q st)) =
     ui st @ [StError [Lit ''Knowledge base error: '', StrExn e]]"
proof -
  let ?s = "logger INFO [Lit (''Getting knowledge base response for query: '' @ q)] st"
  assume "fst (get_kb_response_try env cl q st) = Inl e"
  then have f: "fst (get_kb_response_try env cl q ?s) = Inl e"
    using get_kb_response_try_fst [of env cl q st ?s] by simp
  then have "ui (snd (get_kb_response_try env cl q ?s)) = ui ?s"
    by (rule get_kb_response_try_ui_Inl)
  with f show ?thesis
    by (simp add: get_kb_response_unfold)
qed

lemma turn_response_fst:
  "fst (turn_response str_lower env cl q st) =
     (if fst (classify_query str_lower env cl q (begin_turn q st)) = ''Product''
      then fst (get_kb_response env cl q st)
      else fst (get_generic_response env cl q st))"
  by (simp add: turn_response_unfold dispatch_def
      get_kb_response_fst [where st' = st] get_generic_response_fst [where st' = st])

section \<open>One answer path per query\<close>



section \<open>Classification by substring\<close>

text \<open>
  Claim C2. When the model call succeeds and \<open>result\<close> is the text extracted from its
  response, \<^verbatim>\<open>classify_query\<close> returns "Product" exactly when the lower-cased product
  name occurs in the lower-cased \<open>result\<close> as a contiguous substring, and "Generic"
  otherwise; the lower-casing is \<^verbatim>\<open>str.lower()\<close>, whatever it does. For ASCII text,
  where \<^verbatim>\<open>str.lower()\<close> turns A to Z into a to z and keeps every other character, that
  is containment regardless of case: "Product" exactly when \<open>result\<close> has a contiguous
  part that is the product name but for the case of its letters. With the name "Acme",
  the response "this is about acme products" gives "Product" and the response
  "I don't know" gives "Generic".
\<close>

theorem classify_query_substring:
  assumes "bedrock_runtime cl = Some im"
    and "im (getenv env ''MODEL_ID'') (classify_request env q) = Inr body"
    and "extract_text body = Inr result"
    and "getenv env ''PRODUCT_NAME'' = Some name"
  shows "(fst (classify_query str_lower env cl q st) = ''Product'' \<longleftrightarrow>
            (\<exists>before after. str_lower result = before @ str_lower name @ after)) \<and>
         (fst (classify_query str_lower env cl q st) = ''Generic'' \<longleftrightarrow>
            \<not> (\<exists>before after. str_lower result = before @ str_lower name @ after)) \<and>
         (lowers_ascii str_lower \<and> ascii name \<and> ascii result \<longrightarrow>
            (fst (classify_query str_lower env cl q st) = ''Product'' \<longleftrightarrow>
               (\<exists>before middle after.
                  result = before @ middle @ after \<and> list_all2 same_letter middle name))) \<and>
         (lowers_ascii str_lower \<and> name = ''Acme'' \<and> result = ''this is about acme products'' \<longrightarrow>
            fst (classify_query str_lower env cl q st) = ''Product'') \<and>
         (lowers_ascii str_lower \<and> name = ''Acme'' \<and> result = ''I don't know'' \<longrightarrow>
            fst (classify_query str_lower env cl q st) = ''Generic'') \<and>
         ascii_lower ''ABCDEFGHIJKLMNOPQRSTUVWXYZ'' = ''abcdefghijklmnopqrstuvwxyz'' \<and>
         (\<forall>c. c \<notin> set ''ABCDEFGHIJKLMNOPQRSTUVWXYZ'' \<longrightarrow> ascii_lower [c] = [c])"
proof -
  have c: "fst (classify_query str_lower env cl q st) =
             (if sublist (str_lower name) (str_lower result) then ''Product'' else ''Generic'')"
    using assms by (simp add: classify_query_unfold classify_query_try_result)
  have rule: "fst (classify_query str_lower env cl q st) = ''Product'' \<longleftrightarrow>
            (\<exists>before after. str_lower result = before @ str_lower name @ after)"
    "fst (classify_query str_lower env cl q st) = ''Generic'' \<longleftrightarrow>
            \<not> (\<exists>before after. str_lower result = before @ str_lower name @ after)"
    using c by (auto simp: sublist_def)
  have plain: "fst (classify_query str_lower env cl q st) =
                 (if sublist (ascii_lower name) (ascii_lower result)
                  then ''Product'' else ''Generic'')"
    if "lowers_ascii str_lower" "ascii name" "ascii result"
    using c lowers_asciiD [OF that(1,2)] lowers_asciiD [OF that(1,3)] by simp
  have nocase: "fst (classify_query str_lower env cl q st) = ''Product'' \<longleftrightarrow>
               (\<exists>before middle after.
                  result = before @ middle @ after \<and> list_all2 same_letter middle name)"
    if "lowers_ascii str_lower" "ascii name" "ascii result"
    using plain [OF that] sublist_ascii_lower_iff [of name result] by simp
  have a: "ascii ''Acme''" "ascii ''this is about acme products''" "ascii ''I don't know''"
    by code_simp+
  have yes: "sublist (ascii_lower ''Acme'') (ascii_lower ''this is about acme products'')"
    by code_simp
  have no: "\<not> sublist (ascii_lower ''Acme'') (ascii_lower ''I don't know'')"
    by code_simp
  have ex1: "fst (classify_query str_lower env cl q st) = ''Product''"
    if "lowers_ascii str_lower" "name = ''Acme''" "result = ''this is about acme products''"
    using plain [of] that a yes by simp
  have ex2: "fst (classify_query str_lower env cl q st) = ''Generic''"
    if "lowers_ascii str_lower" "name = ''Acme''" "result = ''I don't know''"
    using plain [of] that a no by simp
  have kept: "\<forall>c. c \<notin> set ''ABCDEFGHIJKLMNOPQRSTUVWXYZ'' \<longrightarrow> ascii_lower [c] = [c]"
    using ascii_lower_char_kept by (simp add: ascii_lower_def)
  show ?thesis
    using rule nocase ex1 ex2 ascii_lower_capitals kept by blast
qed

theorem classify_query_substring_witness:
  "fst (classify_query ascii_lower [''PRODUCT_NAME'' \<mapsto> ''Acme'', ''MODEL_ID'' \<mapsto> ''nova'']
          \<lparr>bedrock_runtime =
              Some (answering (model_body [JObj [(''text'', JStr ''this is about acme products'')]])),
            bedrock_agent = None\<rparr>
          ''where is my order?'' new_session) = ''Product'' \<and>
   fst (classify_query ascii_lower [''PRODUCT_NAME'' \<mapsto> ''Acme'', ''MODEL_ID'' \<mapsto> ''nova'']
          \<lparr>bedrock_runtime = Some (answering (model_body [JObj [(''text'', JStr ''I don't know'')]])),
            bedrock_agent = None\<rparr>
          ''where is my order?'' new_session) = ''Generic'' \<and>
   fst (classify_query ascii_lower [''PRODUCT_NAME'' \<mapsto> ''Acme'', ''MODEL_ID'' \<mapsto> ''nova'']
          \<lparr>bedrock_runtime = Some (answering (model_body [JObj [(''text'', JStr ''Ask ACME!'')]])),
            bedrock_agent = None\<rparr>
          ''where is my order?'' new_session) = ''Product''"
proof -
  let ?env = "[''PRODUCT_NAME'' \<mapsto> ''Acme'', ''MODEL_ID'' \<mapsto> ''nova'']"
  let ?yes = "model_body [JObj [(''text'', JStr ''this is about acme products'')]]"
  let ?no = "model_body [JObj [(''text'', JStr ''I don't know'')]]"
  let ?caps = "model_body [JObj [(''text'', JStr ''Ask ACME!'')]]"
  have ey: "extract_text ?yes = Inr ''this is about acme products''"
    by (simp add: extract_text_model_body fragment_def text_field_JObj)
  have en: "extract_text ?no = Inr ''I don't know''"
    by (simp add: extract_text_model_body fragment_def text_field_JObj)
  have ec: "extract_text ?caps = Inr ''Ask ACME!''"
    by (simp add: extract_text_model_body fragment_def text_field_JObj)
  have name: "getenv ?env ''PRODUCT_NAME'' = Some ''Acme''"
    by (simp add: getenv_def)
  have a: "ascii ''Acme''" "ascii ''Ask ACME!''"
    by code_simp+
  have part: "''Ask ACME!'' = ''Ask '' @ ''ACME'' @ ''!''" "list_all2 same_letter ''ACME'' ''Acme''"
    by code_simp+
  have "fst (classify_query ascii_lower ?env
          \<lparr>bedrock_runtime = Some (answering ?yes), bedrock_agent = None\<rparr>
          ''where is my order?'' new_session) = ''Product''"
    using classify_query_substring
      [where cl = "\<lparr>bedrock_runtime = Some (answering ?yes), bedrock_agent = None\<rparr>"
         and im = "answering ?yes" and env = ?env and q = "''where is my order?''"
         and body = ?yes and result = "''this is about acme products''" and name = "''Acme''"
         and str_lower = ascii_lower and st = new_session]
      ey name lowers_ascii_ascii_lower
    by (simp add: answering_def)
  moreover have "fst (classify_query ascii_lower ?env
          \<lparr>bedrock_runtime = Some (answering ?no), bedrock_agent = None\<rparr>
          ''where is my order?'' new_session) = ''Generic''"
    using classify_query_substring
      [where cl = "\<lparr>bedrock_runtime = Some (answering ?no), bedrock_agent = None\<rparr>"
         and im = "answering ?no" and env = ?env and q = "''where is my order?''"
         and body = ?no and result = "''I don't know''" and name = "''Acme''"
         and str_lower = ascii_lower and st = new_session]
      en name lowers_ascii_ascii_lower
    by (simp add: answering_def)
  moreover have "fst (classify_query ascii_lower ?env
          \<lparr>bedrock_runtime = Some (answering ?caps), bedrock_agent = None\<rparr>
          ''where is my order?'' new_session) = ''Product''"
  proof -
    have "\<exists>before middle after.
            ''Ask ACME!'' = before @ middle @ after \<and> list_all2 same_letter middle ''Acme''"
      using part by blast
    then show ?thesis
      using classify_query_substring
        [where cl = "\<lparr>bedrock_runtime = Some (answering ?caps), bedrock_agent = None\<rparr>"
           and im = "answering ?caps" and env = ?env and q = "''where is my order?''"
           and body = ?caps and result = "''Ask ACME!''" and name = "''Acme''"
           and str_lower = ascii_lower and st = new_session]
        ec name lowers_ascii_ascii_lower a
      by (simp add: answering_def)
  qed
  ultimately show ?thesis by simp
qed

section \<open>The end-to-end scenario\<close>

text \<open>
  Claim C3. The scenario: the query "How do I reset my device?", the product name
  "WidgetPro", a classification model that answers "Product", and a knowledge base that
  answers "Hold power for 10s." with one reference. The expected outcome is the
  knowledge-base path with that answer and its citation. The script does something
  else: line 112 looks for the product name in the answer of the model, and
  "widgetpro" does not occur in "product", although the prompt of lines 76-80 tells
  the model to answer with the word Product or the word Generic. So the query is
  classified "Generic", \<^verbatim>\<open>get_kb_response\<close> is not invoked, the knowledge base is not
  called, and the turn's response is that of \<^verbatim>\<open>get_generic_response\<close>. The theorem
  evaluates the turn for every text-model client that answers the classification
  request with "Product", and for every lower-casing that does to ASCII text what
  \<^verbatim>\<open>str.lower()\<close> does.
\<close>

theorem widgetpro_scenario:
  assumes "im (getenv widget_env ''MODEL_ID'') (classify_request widget_env reset_query) =
             Inr (model_body [JObj [(''text'', JStr ''Product'')]])"
    and "lowers_ascii str_lower"
  shows "let cl = \<lparr>bedrock_runtime = Some im,
                   bedrock_agent = Some (retrieving reset_kb_response)\<rparr>;
             st' = handle_turn str_lower widget_env cl (Some reset_query) st
         in fst (classify_query str_lower widget_env cl reset_query (begin_turn reset_query st)) = ''Generic'' \<and>
            length (filter kb_invoked (logged st')) = length (filter kb_invoked (logged st)) \<and>
            length (filter generic_invoked (logged st')) =
              length (filter generic_invoked (logged st)) + 1 \<and>
            calls st' =
              calls st @
                [InvokeModel (Some ''nova'') (classify_request widget_env reset_query),
                 InvokeModel (Some ''nova'') (generic_request reset_query)] \<and>
            fst (turn_response str_lower widget_env cl reset_query st) =
              fst (get_generic_response widget_env cl reset_query st)"
proof -
  let ?cl = "\<lparr>bedrock_runtime = Some im, bedrock_agent = Some (retrieving reset_kb_response)\<rparr>"
  have q: "reset_query \<noteq> []"
    by (simp add: reset_query_def)
  have env: "getenv widget_env ''PRODUCT_NAME'' = Some ''WidgetPro''"
    "getenv widget_env ''MODEL_ID'' = Some ''nova''"
    by code_simp+
  have "ascii ''WidgetPro''" "ascii ''Product''"
    by code_simp+
  then have low: "str_lower ''WidgetPro'' = ascii_lower ''WidgetPro''"
    "str_lower ''Product'' = ascii_lower ''Product''"
    using assms(2) by (simp_all add: lowers_asciiD)
  have "\<not> sublist (ascii_lower ''WidgetPro'') (ascii_lower ''Product'')"
    by code_simp
  then have miss: "\<not> sublist (str_lower ''WidgetPro'') (str_lower ''Product'')"
    using low by simp
  have "extract_text (model_body [JObj [(''text'', JStr ''Product'')]]) = Inr ''Product''"
    by (simp add: extract_text_model_body fragment_def text_field_JObj)
  with assms(1) env miss
  have "fst (classify_query_try str_lower widget_env ?cl reset_query st) = Inr ''Generic''"
    by (simp add: classify_query_try_result)
  then have c: "fst (classify_query str_lower widget_env ?cl reset_query (begin_turn reset_query st)) = ''Generic''"
    by (simp add: classify_query_fst [where st' = st])
  have "length (filter kb_invoked (logged (handle_turn str_lower widget_env ?cl (Some reset_query) st))) =
          length (filter kb_invoked (logged st))"
    "length (filter generic_invoked (logged (handle_turn str_lower widget_env ?cl (Some reset_query) st))) =
          length (filter generic_invoked (logged st)) + 1"
    "calls (handle_turn str_lower widget_env ?cl (Some reset_query) st) =
       calls st @
         [InvokeModel (Some ''nova'') (classify_request widget_env reset_query),
          InvokeModel (Some ''nova'') (generic_request reset_query)]"
    "fst (turn_response str_lower widget_env ?cl reset_query st) =
       fst (get_generic_response widget_env ?cl reset_query st)"
    using q c env(2)
    by (simp_all add: handle_turn_unfold finish_turn_state turn_response_state turn_response_fst)
  with c show ?thesis
    by (simp add: Let_def)
qed

theorem widgetpro_scenario_witness:
  "chat_history
     (handle_turn ascii_lower widget_env
        \<lparr>bedrock_runtime = Some (answering (model_body [JObj [(''text'', JStr ''Product'')]])),
         bedrock_agent = Some (retrieving reset_kb_response)\<rparr>
        (Some reset_query) new_session) =
     [\<lparr>role = ''user'', content = JStr ''How do I reset my device?''\<rparr>,
      \<lparr>role = ''system'', content = JStr ''Classified as: Generic''\<rparr>,
      \<lparr>role = ''assistant'', content = JStr ''Product''\<rparr>] \<and>
   calls
     (handle_turn ascii_lower widget_env
        \<lparr>bedrock_runtime = Some (answering (model_body [JObj [(''text'', JStr ''Product'')]])),
         bedrock_agent = Some (retrieving reset_kb_response)\<rparr>
        (Some reset_query) new_session) =
     [InvokeModel (Some ''nova'') (classify_request widget_env reset_query),
      InvokeModel (Some ''nova'') (generic_request reset_query)]"
proof -
  let ?im = "answering (model_body [JObj [(''text'', JStr ''Product'')]])"
  let ?cl = "\<lparr>bedrock_runtime = Some ?im, bedrock_agent = Some (retrieving reset_kb_response)\<rparr>"
  have q: "reset_query \<noteq> []"
    by (simp add: reset_query_def)
  have a: "?im (getenv widget_env ''MODEL_ID'') (classify_request widget_env reset_query) =
             Inr (model_body [JObj [(''text'', JStr ''Product'')]])"
    by (simp add: answering_def)
  have e: "extract_text (model_body [JObj [(''text'', JStr ''Product'')]]) = Inr ''Product''"
    by (simp add: extract_text_model_body fragment_def text_field_JObj)
  from widgetpro_scenario [where im = ?im and str_lower = ascii_lower and st = new_session]
    a lowers_ascii_ascii_lower
  have c: "fst (classify_query ascii_lower widget_env ?cl reset_query (begin_turn reset_query new_session)) =
             ''Generic''"
    and k: "calls (handle_turn ascii_lower widget_env ?cl (Some reset_query) new_session) =
              calls new_session @
                [InvokeModel (Some ''nova'') (classify_request widget_env reset_query),
                 InvokeModel (Some ''nova'') (generic_request reset_query)]"
    and r: "fst (turn_response ascii_lower widget_env ?cl reset_query new_session) =
              fst (get_generic_response widget_env ?cl reset_query new_session)"
    by (simp_all add: Let_def)
  have "fst (get_generic_response widget_env ?cl reset_query new_session) = JStr ''Product''"
    using e by (simp add: get_generic_response_unfold get_generic_response_try_result answering_def)
  with r have "fst (turn_response ascii_lower widget_env ?cl reset_query new_session) = JStr ''Product''"
    by simp
  with q c have "chat_history (handle_turn ascii_lower widget_env ?cl (Some reset_query) new_session) =
     [\<lparr>role = ''user'', content = JStr ''How do I reset my device?''\<rparr>,
      \<lparr>role = ''system'', content = JStr ''Classified as: Generic''\<rparr>,
      \<lparr>role = ''assistant'', content = JStr ''Product''\<rparr>]"
    by (simp add: handle_turn_unfold finish_turn_state turn_response_state new_session_def
        reset_query_def)
  with k show ?thesis
    by (simp add: new_session_def)
qed

section \<open>Classification fails open\<close>

text \<open>
  Claim C4. When the call to the classification model raises, the exception is the
  result of the \<^verbatim>\<open>try\<close> block of \<^verbatim>\<open>classify_query\<close>. Whatever the block raises (the
  call, an unbound client, a malformed response), \<^verbatim>\<open>classify_query\<close> returns
  "Generic" and shows the error with \<^verbatim>\<open>st.error\<close>; it raises nothing itself, being a
  function into results. The turn then appends "Classified as: Generic" and invokes
  \<^verbatim>\<open>get_generic_response\<close>, and not \<^verbatim>\<open>get_kb_response\<close>.
\<close>

theorem classify_query_fail_open:
  "(bedrock_runtime cl = Some im \<and>
    im (getenv env ''MODEL_ID'') (classify_request env query) = Inl e \<longrightarrow>
      fst (classify_query_try str_lower env cl query st) = Inl e) \<and>
   (bedrock_runtime cl = None \<longrightarrow>
      fst (classify_query_try str_lower env cl query st) = Inl (NameError ''bedrock_runtime'')) \<and>
   (fst (classify_query_try str_lower env cl query st) = Inl e \<longrightarrow>
      fst (classify_query str_lower env cl query st) = ''Generic'' \<and>
      ui (snd (classify_query str_lower env cl query st)) =
        ui st @ [StError [Lit ''Classification error: '', StrExn e]] \<and>
      (query \<noteq> [] \<longrightarrow>
         chat_history (handle_turn str_lower env cl (Some query) st) =
           chat_history st @
             [\<lparr>role = ''user'', content = JStr query\<rparr>,
              \<lparr>role = ''system'', content = JStr ''Classified as: Generic''\<rparr>] @
             (if truthy (fst (turn_response str_lower env cl query st))
              then [\<lparr>role = ''assistant'', content = fst (turn_response str_lower env cl query st)\<rparr>]
              else []) \<and>
         length (filter generic_invoked (logged (handle_turn str_lower env cl (Some query) st))) =
           length (filter generic_invoked (logged st)) + 1 \<and>
         length (filter kb_invoked (logged (handle_turn str_lower env cl (Some query) st))) =
           length (filter kb_invoked (logged st))))"
proof -
  have call: "fst (classify_query_try str_lower env cl query st) = Inl e"
    if "bedrock_runtime cl = Some im"
      "im (getenv env ''MODEL_ID'') (classify_request env query) = Inl e"
    using that by (simp add: classify_query_try_result)
  have unbound: "fst (classify_query_try str_lower env cl query st) = Inl (NameError ''bedrock_runtime'')"
    if "bedrock_runtime cl = None"
    using that by (simp add: classify_query_try_def)
  have generic: "fst (classify_query str_lower env cl query s) = ''Generic''"
    if "fst (classify_query_try str_lower env cl query st) = Inl e" for s
    using that by (simp add: classify_query_fst [where st' = st])
  have shown: "ui (snd (classify_query str_lower env cl query st)) =
        ui st @ [StError [Lit ''Classification error: '', StrExn e]]"
    if "fst (classify_query_try str_lower env cl query st) = Inl e"
    using that by (simp add: classify_query_ui)
  have turn: "chat_history (handle_turn str_lower env cl (Some query) st) =
           chat_history st @
             [\<lparr>role = ''user'', content = JStr query\<rparr>,
              \<lparr>role = ''system'', content = JStr ''Classified as: Generic''\<rparr>] @
             (if truthy (fst (turn_response str_lower env cl query st))
              then [\<lparr>role = ''assistant'', content = fst (turn_response str_lower env cl query st)\<rparr>]
              else [])"
      "length (filter generic_invoked (logged (handle_turn str_lower env cl (Some query) st))) =
           length (filter generic_invoked (logged st)) + 1"
      "length (filter kb_invoked (logged (handle_turn str_lower env cl (Some query) st))) =
           length (filter kb_invoked (logged st))"
    if "fst (classify_query_try str_lower env cl query st) = Inl e" "query \<noteq> []"
    using that(2) generic [OF that(1), of "begin_turn query st"]
    by (simp_all add: handle_turn_unfold finish_turn_state turn_response_state)
  show ?thesis
    using call unbound generic shown turn by blast
qed

theorem classify_query_fail_open_witness:
  "classify_query ascii_lower (\<lambda>v. Some ''Acme'')
     \<lparr>bedrock_runtime = Some (raising (ClientError ''throttled'')), bedrock_agent = None\<rparr>
     ''hello'' new_session =
   (''Generic'',
    \<lparr>chat_history = [],
     ui = [StError [Lit ''Classification error: '', StrExn (ClientError ''throttled'')]],
     logged = [(INFO, [Lit ''Classifying query: hello'']),
               (ERROR, [Lit ''Classification error: '', StrExn (ClientError ''throttled'')]),
               (ERROR, [FormatExc (ClientError ''throttled'')])],
     calls = [InvokeModel (Some ''Acme'') (classify_request (\<lambda>v. Some ''Acme'') ''hello'')]\<rparr>)"
proof -
  let ?env = "\<lambda>v::string. Some ''Acme''"
  let ?cl = "\<lparr>bedrock_runtime = Some (raising (ClientError ''throttled'')), bedrock_agent = None\<rparr>"
  have r: "fst (classify_query_try ascii_lower ?env ?cl ''hello'' new_session) = Inl (ClientError ''throttled'')"
    by (simp add: classify_query_try_result raising_def)
  from classify_query_fail_open
         [where cl = ?cl and env = ?env and query = "''hello''" and e = "ClientError ''throttled''"
            and str_lower = ascii_lower and st = new_session] r
  have "fst (classify_query ascii_lower ?env ?cl ''hello'' new_session) = ''Generic''"
    by blast
  moreover have "snd (classify_query ascii_lower ?env ?cl ''hello'' new_session) =
    \<lparr>chat_history = [],
     ui = [StError [Lit ''Classification error: '', StrExn (ClientError ''throttled'')]],
     logged = [(INFO, [Lit ''Classifying query: hello'']),
               (ERROR, [Lit ''Classification error: '', StrExn (ClientError ''throttled'')]),
               (ERROR, [FormatExc (ClientError ''throttled'')])],
     calls = [InvokeModel (Some ''Acme'') (classify_request ?env ''hello'')]\<rparr>"
    by (simp add: classify_query_def classify_query_try_def raising_def new_session_def
        logger_def record_call_def report_error_def st_show_def getenv_def)
  ultimately show ?thesis
    by (simp add: prod_eq_iff)
qed

section \<open>The citation shown by \<^verbatim>\<open>get_kb_response\<close>\<close>

text \<open>
  Claim C5, as the script has it. Let the knowledge base answer with a response that has
  \<^verbatim>\<open>output.text\<close>. When its list of citations and the first citation's list of
  retrieved references both have a first element, and that reference has
  \<^verbatim>\<open>content.text\<close> and \<^verbatim>\<open>location.s3Location.uri\<close>, then exactly these two values are
  shown, as context and as source; the other citations and references play no part.
  When the list of citations is empty, or the first citation has an empty list of
  references, the only thing shown is the "No specific context found" line. In these
  cases the function returns \<^verbatim>\<open>output.text\<close>.
\<close>

theorem first_citation_surfaced:
  assumes "bedrock_agent cl = Some rag"
    and "rag query (getenv env ''KNOWLEDGE_BASE_ID'') (model_arn env) = Inr r"
    and "getitem_str r ''output'' = Inr out"
    and "getitem_str out ''text'' = Inr answer"
  shows "(getitem_str r ''citations'' = Inr (JArr (citation # citations)) \<and>
          getitem_str citation ''retrievedReferences'' = Inr (JArr (ref # refs)) \<and>
          getitem_str ref ''content'' = Inr c \<and> getitem_str c ''text'' = Inr context \<and>
          getitem_str ref ''location'' = Inr loc \<and> getitem_str loc ''s3Location'' = Inr s3 \<and>
          getitem_str s3 ''uri'' = Inr source \<longrightarrow>
            fst (get_kb_response env cl query st) = answer \<and>
            ui (snd (get_kb_response env cl query st)) =
              ui st @ [StMarkdown [Lit ''<span style='color:#FFDA33'>Context: </span>'', Fmt context],
                       StMarkdown [Lit ''<span style='color:#FFDA33'>Source: </span>'', Fmt source]]) \<and>
         (getitem_str r ''citations'' = Inr (JArr []) \<or>
          getitem_str r ''citations'' = Inr (JArr (citation # citations)) \<and>
          getitem_str citation ''retrievedReferences'' = Inr (JArr []) \<longrightarrow>
            fst (get_kb_response env cl query st) = answer \<and>
            ui (snd (get_kb_response env cl query st)) =
              ui st @ [StMarkdown [Lit ''<span style='color:red'>No specific context found</span>'']])"
proof -
  let ?s = "record_call (RetrieveAndGenerate query (getenv env ''KNOWLEDGE_BASE_ID'') (model_arn env))
              (logger INFO [Lit (''Getting knowledge base response for query: '' @ query)] st)"
  have run: "get_kb_response env cl query st =
               (case kb_answer r ?s of
                  (Inr a, s1) \<Rightarrow> (a, s1)
                | (Inl e, s1) \<Rightarrow> (JStr [], report_error ''Knowledge base error: '' e s1))"
    using assms(1,2) by (simp add: get_kb_response_def get_kb_response_try_def Let_def)
  have found: "kb_answer r ?s =
      (Inr answer,
       st_show (StMarkdown [Lit source_label, Fmt source])
         (st_show (StMarkdown [Lit context_label, Fmt context])
           (logger INFO [Lit ''Found context from source: '', Fmt source]
             (logger INFO [Lit ''Successfully retrieved answer from knowledge base''] ?s))))"
    if "getitem_str r ''citations'' = Inr (JArr (citation # citations))"
      "getitem_str citation ''retrievedReferences'' = Inr (JArr (ref # refs))"
      "getitem_str ref ''content'' = Inr c" "getitem_str c ''text'' = Inr context"
      "getitem_str ref ''location'' = Inr loc" "getitem_str loc ''s3Location'' = Inr s3"
      "getitem_str s3 ''uri'' = Inr source"
    using assms(3,4) that
    by (simp add: kb_answer_def has_first_reference_def first_reference_def
        citation_context_def citation_source_def Let_def)
  have none: "kb_answer r ?s =
      (Inr answer,
       st_show (StMarkdown [Lit no_context_html])
         (logger WARNING [Lit ''No specific context found in knowledge base response'']
           (logger INFO [Lit ''Successfully retrieved answer from knowledge base''] ?s)))"
    if "getitem_str r ''citations'' = Inr (JArr []) \<or>
        getitem_str r ''citations'' = Inr (JArr (citation # citations)) \<and>
        getitem_str citation ''retrievedReferences'' = Inr (JArr [])"
    using assms(3,4) that
    by (auto simp: kb_answer_def has_first_reference_def Let_def)
  have a: "fst (get_kb_response env cl query st) = answer"
      "ui (snd (get_kb_response env cl query st)) =
              ui st @ [StMarkdown [Lit ''<span style='color:#FFDA33'>Context: </span>'', Fmt context],
                       StMarkdown [Lit ''<span style='color:#FFDA33'>Source: </span>'', Fmt source]]"
    if "getitem_str r ''citations'' = Inr (JArr (citation # citations))"
      "getitem_str citation ''retrievedReferences'' = Inr (JArr (ref # refs))"
      "getitem_str ref ''content'' = Inr c" "getitem_str c ''text'' = Inr context"
      "getitem_str ref ''location'' = Inr loc" "getitem_str loc ''s3Location'' = Inr s3"
      "getitem_str s3 ''uri'' = Inr source"
    unfolding run found [OF that]
    by (simp_all add: context_label_def source_label_def)
  have b: "fst (get_kb_response env cl query st) = answer"
      "ui (snd (get_kb_response env cl query st)) =
              ui st @ [StMarkdown [Lit ''<span style='color:red'>No specific context found</span>'']]"
    if "getitem_str r ''citations'' = Inr (JArr []) \<or>
        getitem_str r ''citations'' = Inr (JArr (citation # citations)) \<and>
        getitem_str citation ''retrievedReferences'' = Inr (JArr [])"
    unfolding run none [OF that]
    by (simp_all add: no_context_html_def)
  show ?thesis
    using a b by blast
qed

theorem first_citation_surfaced_witness:
  "get_kb_response widget_env
     \<lparr>bedrock_runtime = None, bedrock_agent = Some (retrieving reset_kb_response)\<rparr>
     reset_query new_session =
   (JStr ''Hold power for 10s.'',
    \<lparr>chat_history = [],
     ui = [StMarkdown [Lit ''<span style='color:#FFDA33'>Context: </span>'',
                       Fmt (JStr ''Reset instructions...'')],
           StMarkdown [Lit ''<span style='color:#FFDA33'>Source: </span>'',
                       Fmt (JStr ''s3://docs/reset.txt'')]],
     logged = [(INFO, [Lit ''Getting knowledge base response for query: How do I reset my device?'']),
               (INFO, [Lit ''Successfully retrieved answer from knowledge base'']),
               (INFO, [Lit ''Found context from source: '', Fmt (JStr ''s3://docs/reset.txt'')])],
     calls = [RetrieveAndGenerate ''How do I reset my device?'' (Some ''kb'')
                ''arn:aws:bedrock:us-east-1::foundation-model/nova'']\<rparr>) \<and>
   fst (get_kb_response widget_env
     \<lparr>bedrock_runtime = None, bedrock_agent = Some (retrieving reset_kb_response_more)\<rparr>
     reset_query new_session) = JStr ''Hold power for 10s.'' \<and>
   ui (snd (get_kb_response widget_env
     \<lparr>bedrock_runtime = None, bedrock_agent = Some (retrieving reset_kb_response_more)\<rparr>
     reset_query new_session)) =
     [StMarkdown [Lit ''<span style='color:#FFDA33'>Context: </span>'',
                  Fmt (JStr ''Reset instructions...'')],
      StMarkdown [Lit ''<span style='color:#FFDA33'>Source: </span>'',
                  Fmt (JStr ''s3://docs/reset.txt'')]] \<and>
   fst (get_kb_response widget_env
     \<lparr>bedrock_runtime = None,
      bedrock_agent = Some (retrieving (JObj [(''output'', JObj [(''text'', JStr ''Hold on.'')]),
                                              (''citations'', JArr [])]))\<rparr>
     reset_query new_session) = JStr ''Hold on.'' \<and>
   ui (snd (get_kb_response widget_env
     \<lparr>bedrock_runtime = None,
      bedrock_agent = Some (retrieving (JObj [(''output'', JObj [(''text'', JStr ''Hold on.'')]),
                                              (''citations'', JArr [])]))\<rparr>
     reset_query new_session)) =
     [StMarkdown [Lit ''<span style='color:red'>No specific context found</span>'']]"
proof -
  let ?cl = "\<lparr>bedrock_runtime = None, bedrock_agent = Some (retrieving reset_kb_response)\<rparr>"
  let ?bare = "JObj [(''output'', JObj [(''text'', JStr ''Hold on.'')]), (''citations'', JArr [])]"
  let ?quiet = "\<lparr>bedrock_runtime = None, bedrock_agent = Some (retrieving ?bare)\<rparr>"
  let ?ref = "JObj [(''content'', JObj [(''text'', JStr ''Reset instructions...'')]),
                    (''location'', JObj [(''s3Location'', JObj [(''uri'', JStr ''s3://docs/reset.txt'')])])]"
  have env: "getenv widget_env ''KNOWLEDGE_BASE_ID'' = Some ''kb''"
    "model_arn widget_env = ''arn:aws:bedrock:us-east-1::foundation-model/nova''"
    by code_simp+
  have one: "fst (get_kb_response widget_env ?cl reset_query new_session) = JStr ''Hold power for 10s.''"
    "ui (snd (get_kb_response widget_env ?cl reset_query new_session)) =
       ui new_session @
         [StMarkdown [Lit ''<span style='color:#FFDA33'>Context: </span>'', Fmt (JStr ''Reset instructions...'')],
          StMarkdown [Lit ''<span style='color:#FFDA33'>Source: </span>'', Fmt (JStr ''s3://docs/reset.txt'')]]"
    using first_citation_surfaced
      [of ?cl "retrieving reset_kb_response" reset_query widget_env reset_kb_response
          "JObj [(''text'', JStr ''Hold power for 10s.'')]" "JStr ''Hold power for 10s.''"
          "JObj [(''retrievedReferences'', JArr [?ref])]" "[]" ?ref "[]"
          "JObj [(''text'', JStr ''Reset instructions...'')]" "JStr ''Reset instructions...''"
          "JObj [(''s3Location'', JObj [(''uri'', JStr ''s3://docs/reset.txt'')])]"
          "JObj [(''uri'', JStr ''s3://docs/reset.txt'')]" "JStr ''s3://docs/reset.txt''"
          new_session]
    by (simp_all add: retrieving_def reset_kb_response_def)
  let ?more = "\<lparr>bedrock_runtime = None, bedrock_agent = Some (retrieving reset_kb_response_more)\<rparr>"
  let ?other = "JObj [(''content'', JObj [(''text'', JStr ''Battery care'')]),
                      (''location'', JObj [(''s3Location'', JObj [(''uri'', JStr ''s3://docs/battery.txt'')])])]"
  let ?second = "JObj [(''retrievedReferences'',
                   JArr [JObj [(''content'', JObj [(''text'', JStr ''Warranty terms'')]),
                               (''location'',
                                  JObj [(''s3Location'',
                                         JObj [(''uri'', JStr ''s3://docs/warranty.txt'')])])]])]"
  have many: "fst (get_kb_response widget_env ?more reset_query new_session) = JStr ''Hold power for 10s.''"
    "ui (snd (get_kb_response widget_env ?more reset_query new_session)) =
       ui new_session @
         [StMarkdown [Lit ''<span style='color:#FFDA33'>Context: </span>'', Fmt (JStr ''Reset instructions...'')],
          StMarkdown [Lit ''<span style='color:#FFDA33'>Source: </span>'', Fmt (JStr ''s3://docs/reset.txt'')]]"
    using first_citation_surfaced
      [of ?more "retrieving reset_kb_response_more" reset_query widget_env reset_kb_response_more
          "JObj [(''text'', JStr ''Hold power for 10s.'')]" "JStr ''Hold power for 10s.''"
          "JObj [(''retrievedReferences'', JArr [?ref, ?other])]" "[?second]" ?ref "[?other]"
          "JObj [(''text'', JStr ''Reset instructions...'')]" "JStr ''Reset instructions...''"
          "JObj [(''s3Location'', JObj [(''uri'', JStr ''s3://docs/reset.txt'')])]"
          "JObj [(''uri'', JStr ''s3://docs/reset.txt'')]" "JStr ''s3://docs/reset.txt''"
          new_session]
    by (simp_all add: retrieving_def reset_kb_response_more_def)
  have two: "fst (get_kb_response widget_env ?quiet reset_query new_session) = JStr ''Hold on.''"
    "ui (snd (get_kb_response widget_env ?quiet reset_query new_session)) =
       ui new_session @ [StMarkdown [Lit ''<span style='color:red'>No specific context found</span>'']]"
    using first_citation_surfaced
      [of ?quiet "retrieving ?bare" reset_query widget_env ?bare
          "JObj [(''text'', JStr ''Hold on.'')]" "JStr ''Hold on.''" _ _ _ _ _ _ _ _ _ new_session]
    by (simp_all add: retrieving_def)
  have rest: "chat_history (snd (get_kb_response widget_env ?cl reset_query new_session)) = []"
    "calls (snd (get_kb_response widget_env ?cl reset_query new_session)) =
       [RetrieveAndGenerate ''How do I reset my device?'' (Some ''kb'')
          ''arn:aws:bedrock:us-east-1::foundation-model/nova'']"
    using env by (simp_all add: get_kb_response_state new_session_def reset_query_def)
  have lg: "logged (snd (get_kb_response widget_env ?cl reset_query new_session)) =
       [(INFO, [Lit ''Getting knowledge base response for query: How do I reset my device?'']),
        (INFO, [Lit ''Successfully retrieved answer from knowledge base'']),
        (INFO, [Lit ''Found context from source: '', Fmt (JStr ''s3://docs/reset.txt'')])]"
    by (simp add: get_kb_response_def get_kb_response_try_def kb_answer_def Let_def
        has_first_reference_def first_reference_def citation_context_def citation_source_def
        retrieving_def reset_kb_response_def new_session_def reset_query_def)
  have "snd (get_kb_response widget_env ?cl reset_query new_session) =
    \<lparr>chat_history = [],
     ui = [StMarkdown [Lit ''<span style='color:#FFDA33'>Context: </span>'',
                       Fmt (JStr ''Reset instructions...'')],
           StMarkdown [Lit ''<span style='color:#FFDA33'>Source: </span>'',
                       Fmt (JStr ''s3://docs/reset.txt'')]],
     logged = [(INFO, [Lit ''Getting knowledge base response for query: How do I reset my device?'']),
               (INFO, [Lit ''Successfully retrieved answer from knowledge base'']),
               (INFO, [Lit ''Found context from source: '', Fmt (JStr ''s3://docs/reset.txt'')])],
     calls = [RetrieveAndGenerate ''How do I reset my device?'' (Some ''kb'')
                ''arn:aws:bedrock:us-east-1::foundation-model/nova'']\<rparr>"
    using one(2) rest lg by (simp add: new_session_def)
  with one(1) two many show ?thesis
    by (simp add: prod_eq_iff new_session_def)
qed

text \<open>
  Claim C5, as it is worded, fails. The response \<open>web_kb_response\<close> has a citation with
  a reference, so both lists have a first element, and it has \<^verbatim>\<open>output.text\<close>. Its
  reference comes from a web page and has no \<^verbatim>\<open>s3Location\<close>: line 147 raises
  \<^verbatim>\<open>KeyError\<close>, nothing of the reference is shown, and the function returns the empty
  string, not \<^verbatim>\<open>output.text\<close>.
\<close>

theorem first_citation_counterexample:
  "has_first_reference web_kb_response = Inr True \<and>
   try_bind (getitem_str web_kb_response ''output'') (\<lambda>out. getitem_str out ''text'') =
     Inr (JStr ''Hold power for 10s.'') \<and>
   citation_context web_kb_response = Inr (JStr ''Reset instructions...'') \<and>
   citation_source web_kb_response = Inl (KeyError (JStr ''s3Location'')) \<and>
   fst (get_kb_response widget_env
          \<lparr>bedrock_runtime = None, bedrock_agent = Some (retrieving web_kb_response)\<rparr>
          reset_query new_session) = JStr [] \<and>
   ui (snd (get_kb_response widget_env
          \<lparr>bedrock_runtime = None, bedrock_agent = Some (retrieving web_kb_response)\<rparr>
          reset_query new_session)) =
     [StError [Lit ''Knowledge base error: '', StrExn (KeyError (JStr ''s3Location''))]]"
proof -
  let ?cl = "\<lparr>bedrock_runtime = None, bedrock_agent = Some (retrieving web_kb_response)\<rparr>"
  have h: "has_first_reference web_kb_response = Inr True"
    by (simp add: has_first_reference_def web_kb_response_def)
  have a: "try_bind (getitem_str web_kb_response ''output'') (\<lambda>out. getitem_str out ''text'') =
             Inr (JStr ''Hold power for 10s.'')"
    by (simp add: web_kb_response_def)
  have c: "citation_context web_kb_response = Inr (JStr ''Reset instructions...'')"
    by (simp add: citation_context_def first_reference_def web_kb_response_def)
  have s: "citation_source web_kb_response = Inl (KeyError (JStr ''s3Location''))"
    by (simp add: citation_source_def first_reference_def web_kb_response_def)
  have t: "fst (get_kb_response_try widget_env ?cl reset_query new_session) =
             Inl (KeyError (JStr ''s3Location''))"
    using h a c s by (simp add: get_kb_response_try_def kb_answer_def retrieving_def Let_def)
  then have "fst (get_kb_response widget_env ?cl reset_query new_session) = JStr []"
    by (simp add: get_kb_response_fst [where st' = new_session])
  moreover from t
  have "ui (snd (get_kb_response widget_env ?cl reset_query new_session)) =
          ui new_session @ [StError [Lit ''Knowledge base error: '', StrExn (KeyError (JStr ''s3Location''))]]"
    by (rule get_kb_response_ui_Inl)
  ultimately show ?thesis
    using h a c s by (simp add: new_session_def)
qed

section \<open>Errors of the two answer paths\<close>

text \<open>
  Claim C6. An exception raised by the service call is the result of the \<^verbatim>\<open>try\<close> block,
  for \<^verbatim>\<open>get_kb_response\<close> and for \<^verbatim>\<open>get_generic_response\<close>. Whatever the block raises,
  the function returns the empty string and shows the error with \<^verbatim>\<open>st.error\<close>; it
  raises nothing itself. In a turn classified "Product" whose knowledge-base block
  raises, the response is the empty string, \<^verbatim>\<open>get_generic_response\<close> is not invoked,
  the text model is called for the classification only, and the history gets no
  assistant message.
\<close>

theorem answer_errors_caught:
  "(bedrock_agent cl = Some rag \<and>
    rag query (getenv env ''KNOWLEDGE_BASE_ID'') (model_arn env) = Inl e \<longrightarrow>
      fst (get_kb_response_try env cl query st) = Inl e) \<and>
   (bedrock_runtime cl = Some im \<and>
    im (getenv env ''MODEL_ID'') (generic_request query) = Inl e \<longrightarrow>
      fst (get_generic_response_try env cl query st) = Inl e) \<and>
   (fst (get_kb_response_try env cl query st) = Inl e \<longrightarrow>
      fst (get_kb_response env cl query st) = JStr [] \<and>
      ui (snd (get_kb_response env cl query st)) =
        ui st @ [StError [Lit ''Knowledge base error: '', StrExn e]]) \<and>
   (fst (get_generic_response_try env cl query st) = Inl e \<longrightarrow>
      fst (get_generic_response env cl query st) = JStr [] \<and>
      ui (snd (get_generic_response env cl query st)) =
        ui st @ [StError [Lit ''Generic response error: '', StrExn e]]) \<and>
   (query \<noteq> [] \<and>
    fst (classify_query str_lower env cl query (begin_turn query st)) = ''Product'' \<and>
    fst (get_kb_response_try env cl query st) = Inl e \<longrightarrow>
      fst (turn_response str_lower env cl query st) = JStr [] \<and>
      length (filter generic_invoked (logged (handle_turn str_lower env cl (Some query) st))) =
        length (filter generic_invoked (logged st)) \<and>
      calls (handle_turn str_lower env cl (Some query) st) =
        calls st @
          (case bedrock_runtime cl of
             None \<Rightarrow> []
           | Some im \<Rightarrow> [InvokeModel (getenv env ''MODEL_ID'') (classify_request env query)]) @
          (case bedrock_agent cl of
             None \<Rightarrow> []
           | Some rag \<Rightarrow>
               [RetrieveAndGenerate query (getenv env ''KNOWLEDGE_BASE_ID'') (model_arn env)]) \<and>
      chat_history (handle_turn str_lower env cl (Some query) st) =
        chat_history st @
          [\<lparr>role = ''user'', content = JStr query\<rparr>,
           \<lparr>role = ''system'', content = JStr ''Classified as: Product''\<rparr>])"
proof -
  have kb_call: "fst (get_kb_response_try env cl query st) = Inl e"
    if "bedrock_agent cl = Some rag"
      "rag query (getenv env ''KNOWLEDGE_BASE_ID'') (model_arn env) = Inl e"
    using that by (simp add: get_kb_response_try_def)
  have gen_call: "fst (get_generic_response_try env cl query st) = Inl e"
    if "bedrock_runtime cl = Some im"
      "im (getenv env ''MODEL_ID'') (generic_request query) = Inl e"
    using that by (simp add: get_generic_response_try_result)
  have kb: "fst (get_kb_response env cl query st) = JStr []"
      "ui (snd (get_kb_response env cl query st)) =
        ui st @ [StError [Lit ''Knowledge base error: '', StrExn e]]"
    if "fst (get_kb_response_try env cl query st) = Inl e"
    using that by (simp_all add: get_kb_response_fst [where st' = st] get_kb_response_ui_Inl)
  have gen: "fst (get_generic_response env cl query st) = JStr []"
      "ui (snd (get_generic_response env cl query st)) =
        ui st @ [StError [Lit ''Generic response error: '', StrExn e]]"
    if "fst (get_generic_response_try env cl query st) = Inl e"
    using that by (simp_all add: get_generic_response_fst [where st' = st] get_generic_response_ui)
  have turn: "fst (turn_response str_lower env cl query st) = JStr []"
      "length (filter generic_invoked (logged (handle_turn str_lower env cl (Some query) st))) =
        length (filter generic_invoked (logged st))"
      "calls (handle_turn str_lower env cl (Some query) st) =
        calls st @
          (case bedrock_runtime cl of
             None \<Rightarrow> []
           | Some im \<Rightarrow> [InvokeModel (getenv env ''MODEL_ID'') (classify_request env query)]) @
          (case bedrock_agent cl of
             None \<Rightarrow> []
           | Some rag \<Rightarrow>
               [RetrieveAndGenerate query (getenv env ''KNOWLEDGE_BASE_ID'') (model_arn env)])"
      "chat_history (handle_turn str_lower env cl (Some query) st) =
        chat_history st @
          [\<lparr>role = ''user'', content = JStr query\<rparr>,
           \<lparr>role = ''system'', content = JStr ''Classified as: Product''\<rparr>]"
    if "query \<noteq> []" "fst (classify_query str_lower env cl query (begin_turn query st)) = ''Product''"
      "fst (get_kb_response_try env cl query st) = Inl e"
  proof -
    show r: "fst (turn_response str_lower env cl query st) = JStr []"
      using that kb(1) by (simp add: turn_response_fst)
    show "length (filter generic_invoked (logged (handle_turn str_lower env cl (Some query) st))) =
        length (filter generic_invoked (logged st))"
      using that by (simp add: handle_turn_unfold finish_turn_state turn_response_state)
    show "calls (handle_turn str_lower env cl (Some query) st) =
        calls st @
          (case bedrock_runtime cl of
             None \<Rightarrow> []
           | Some im \<Rightarrow> [InvokeModel (getenv env ''MODEL_ID'') (classify_request env query)]) @
          (case bedrock_agent cl of
             None \<Rightarrow> []
           | Some rag \<Rightarrow>
               [RetrieveAndGenerate query (getenv env ''KNOWLEDGE_BASE_ID'') (model_arn env)])"
      using that by (simp add: handle_turn_unfold finish_turn_state turn_response_state)
    show "chat_history (handle_turn str_lower env cl (Some query) st) =
        chat_history st @
          [\<lparr>role = ''user'', content = JStr query\<rparr>,
           \<lparr>role = ''system'', content = JStr ''Classified as: Product''\<rparr>]"
      using that r by (simp add: handle_turn_unfold finish_turn_state turn_response_state)
  qed
  show ?thesis
    using kb_call gen_call kb gen turn by blast
qed

theorem answer_errors_caught_witness:
  "fst (get_kb_response (\<lambda>v. Some ''Acme'')
          \<lparr>bedrock_runtime = None, bedrock_agent = Some (\<lambda>q kb arn. Inr (JObj []))\<rparr>
          ''hello'' new_session) = JStr [] \<and>
   ui (snd (get_kb_response (\<lambda>v. Some ''Acme'')
          \<lparr>bedrock_runtime = None, bedrock_agent = Some (\<lambda>q kb arn. Inr (JObj []))\<rparr>
          ''hello'' new_session)) =
     [StError [Lit ''Knowledge base error: '', StrExn (KeyError (JStr ''output''))]] \<and>
   fst (get_generic_response (\<lambda>v. Some ''Acme'')
          \<lparr>bedrock_runtime = Some (raising (ClientError ''throttled'')), bedrock_agent = None\<rparr>
          ''hello'' new_session) = JStr [] \<and>
   ui (snd (get_generic_response (\<lambda>v. Some ''Acme'')
          \<lparr>bedrock_runtime = Some (raising (ClientError ''throttled'')), bedrock_agent = None\<rparr>
          ''hello'' new_session)) =
     [StError [Lit ''Generic response error: '', StrExn (ClientError ''throttled'')]]"
proof -
  let ?env = "\<lambda>v::string. Some ''Acme''"
  let ?kb = "\<lparr>bedrock_runtime = None, bedrock_agent = Some (\<lambda>q kb arn. Inr (JObj []))\<rparr>"
  let ?gen = "\<lparr>bedrock_runtime = Some (raising (ClientError ''throttled'')), bedrock_agent = None\<rparr>"
  have k: "fst (get_kb_response_try ?env ?kb ''hello'' new_session) =
             Inl (KeyError (JStr ''output''))"
    by (simp add: get_kb_response_try_def kb_answer_def)
  have g: "fst (get_generic_response_try ?env ?gen ''hello'' new_session) =
             Inl (ClientError ''throttled'')"
    by (simp add: get_generic_response_try_result raising_def)
  have u: "ui new_session = []"
    by (simp add: new_session_def)
  from answer_errors_caught
         [where cl = ?kb and query = "''hello''" and env = ?env
            and e = "KeyError (JStr ''output'')" and st = new_session] k
  have "fst (get_kb_response ?env ?kb ''hello'' new_session) = JStr []"
    "ui (snd (get_kb_response ?env ?kb ''hello'' new_session)) =
       ui new_session @ [StError [Lit ''Knowledge base error: '', StrExn (KeyError (JStr ''output''))]]"
    by blast+
  moreover from answer_errors_caught
         [where cl = ?gen and query = "''hello''" and env = ?env
            and e = "ClientError ''throttled''" and st = new_session] g
  have "fst (get_generic_response ?env ?gen ''hello'' new_session) = JStr []"
    "ui (snd (get_generic_response ?env ?gen ''hello'' new_session)) =
       ui new_session @ [StError [Lit ''Generic response error: '', StrExn (ClientError ''throttled'')]]"
    by blast+
  ultimately show ?thesis
    using u by simp
qed

section \<open>The text of a generation response\<close>

text \<open>
  Claim C7. When the response body has \<^verbatim>\<open>output.message.content\<close> and the content is a
  list of fragments, the extracted string is the concatenation, in the order of the
  list, of the \<^verbatim>\<open>text\<close> members of the fragments that have one; a fragment without
  a \<^verbatim>\<open>text\<close> member adds nothing. \<^verbatim>\<open>get_generic_response\<close> returns that string when the
  model answers with such a body (and \<^verbatim>\<open>classify_query\<close> classifies it).
\<close>

theorem extract_text_concatenates:
  assumes "getitem_str response_body ''output'' = Inr out"
    and "getitem_str out ''message'' = Inr msg"
    and "getitem_str msg ''content'' = Inr (JArr items)"
    and "\<forall>item \<in> set items. fragment item"
  shows "extract_text response_body = Inr (concat (List.map_filter text_field items)) \<and>
         (bedrock_runtime cl = Some im \<and>
          im (getenv env ''MODEL_ID'') (generic_request q) = Inr response_body \<longrightarrow>
            fst (get_generic_response env cl q st) =
              JStr (concat (List.map_filter text_field items)))"
proof -
  have "extract_text response_body = Inr (concat (List.map_filter text_field items))"
    using assms by (rule extract_text_fragments)
  then show ?thesis
    by (simp add: get_generic_response_unfold get_generic_response_try_result)
qed

theorem extract_text_concatenates_witness:
  "extract_text
     (model_body [JObj [(''text'', JStr ''Hello, '')], JObj [(''image'', JNull)],
                  JObj [(''text'', JStr ''world'')]]) = Inr ''Hello, world'' \<and>
   fst (get_generic_response (\<lambda>v. None)
          \<lparr>bedrock_runtime = Some (\<lambda>m b. Inr
              (model_body [JObj [(''text'', JStr ''Hello, '')], JObj [(''image'', JNull)],
                           JObj [(''text'', JStr ''world'')]])),
            bedrock_agent = None\<rparr>
          ''hi'' \<lparr>chat_history = [], ui = [], logged = [], calls = []\<rparr>) =
     JStr ''Hello, world''"
  using extract_text_concatenates
    [of "model_body [JObj [(''text'', JStr ''Hello, '')], JObj [(''image'', JNull)],
                     JObj [(''text'', JStr ''world'')]]"
        "JObj [(''message'', JObj [(''role'', JStr ''assistant''), (''content'',
           JArr [JObj [(''text'', JStr ''Hello, '')], JObj [(''image'', JNull)],
                 JObj [(''text'', JStr ''world'')]])])]"
        "JObj [(''role'', JStr ''assistant''), (''content'',
           JArr [JObj [(''text'', JStr ''Hello, '')], JObj [(''image'', JNull)],
                 JObj [(''text'', JStr ''world'')]])]"
        "[JObj [(''text'', JStr ''Hello, '')], JObj [(''image'', JNull)],
          JObj [(''text'', JStr ''world'')]]"
        "\<lparr>bedrock_runtime = Some (\<lambda>m b. Inr
              (model_body [JObj [(''text'', JStr ''Hello, '')], JObj [(''image'', JNull)],
                           JObj [(''text'', JStr ''world'')]])),
            bedrock_agent = None\<rparr>"
        "\<lambda>m b. Inr
              (model_body [JObj [(''text'', JStr ''Hello, '')], JObj [(''image'', JNull)],
                           JObj [(''text'', JStr ''world'')]])"
        "\<lambda>v. None" "''hi''" "\<lparr>chat_history = [], ui = [], logged = [], calls = []\<rparr>"]
  by (simp add: model_body_def fragment_def text_field_JObj)

section \<open>Startup validation\<close>

text \<open>
  Claim C8. The required variables are the region, the access key id, the secret access
  key, the model identifier, the knowledge-base identifier, the product name and the
  application title. When one of them is missing (the script's test: its value is
  \<^verbatim>\<open>None\<close> or empty), the run ends with a \<^verbatim>\<open>ValueError\<close> before the handler of the query:
  nothing is added to the chat history, nothing is shown and no service is called.
  Its message is "Missing required environment variables: " followed by the names of
  all the missing variables, separated by ", ": every missing variable is named in it.
\<close>

theorem missing_variable_fatal:
  assumes "\<exists>var \<in> set required_env_vars. \<not> env_truthy (getenv env var)"
  shows "required_env_vars =
           [''AWS_REGION'', ''AWS_ACCESS_KEY_ID'', ''AWS_SECRET_ACCESS_KEY'',
            ''MODEL_ID'', ''KNOWLEDGE_BASE_ID'', ''PRODUCT_NAME'', ''APP_TITLE''] \<and>
         fst (script_run str_lower env b fresh chat_input st) = Inl (ValueError (missing_error_msg env)) \<and>
         chat_history (snd (script_run str_lower env b fresh chat_input st)) = chat_history st \<and>
         ui (snd (script_run str_lower env b fresh chat_input st)) = ui st \<and>
         calls (snd (script_run str_lower env b fresh chat_input st)) = calls st \<and>
         missing_error_msg env =
           ''Missing required environment variables: '' @
           join '', '' (filter (\<lambda>var. \<not> env_truthy (getenv env var)) required_env_vars) \<and>
         (\<forall>var \<in> set required_env_vars.
            \<not> env_truthy (getenv env var) \<longrightarrow> sublist var (missing_error_msg env))"
proof -
  from assms have ne: "missing_vars env \<noteq> []"
    by (auto simp: missing_vars_def filter_empty_conv)
  have named: "sublist var (missing_error_msg env)"
    if "var \<in> set required_env_vars" "\<not> env_truthy (getenv env var)" for var
  proof -
    from that have "var \<in> set (missing_vars env)"
      by (simp add: missing_vars_iff)
    then have "sublist var (join '', '' (missing_vars env))"
      by (rule sublist_join)
    then obtain ps ss where "join '', '' (missing_vars env) = ps @ var @ ss"
      by (auto simp: sublist_def)
    then have "missing_error_msg env =
                 (''Missing required environment variables: '' @ ps) @ var @ ss"
      by (simp add: missing_error_msg_def)
    then show ?thesis unfolding sublist_def by blast
  qed
  have msg: "missing_error_msg env =
           ''Missing required environment variables: '' @
           join '', '' (filter (\<lambda>var. \<not> env_truthy (getenv env var)) required_env_vars)"
    by (simp add: missing_error_msg_def missing_vars_def)
  have run: "script_run str_lower env b fresh chat_input st =
     (Inl (ValueError (missing_error_msg env)),
      logger ERROR [Lit (missing_error_msg env)]
        (logger INFO [Lit ''Environment variables loaded''] st))"
    using ne by (rule script_run_invalid)
  have fields: "chat_history (snd (script_run str_lower env b fresh chat_input st)) = chat_history st"
    "ui (snd (script_run str_lower env b fresh chat_input st)) = ui st"
    "calls (snd (script_run str_lower env b fresh chat_input st)) = calls st"
    "fst (script_run str_lower env b fresh chat_input st) = Inl (ValueError (missing_error_msg env))"
    by (simp_all add: run)
  have all_named: "\<forall>var \<in> set required_env_vars.
            \<not> env_truthy (getenv env var) \<longrightarrow> sublist var (missing_error_msg env)"
    using named by blast
  show ?thesis
    using fields msg all_named required_env_vars_def by blast
qed

theorem missing_variable_fatal_witness:
  "fst (script_run ascii_lower
          [''AWS_REGION'' \<mapsto> ''eu-west-1'', ''AWS_ACCESS_KEY_ID'' \<mapsto> ''id'',
           ''AWS_SECRET_ACCESS_KEY'' \<mapsto> ''key'', ''KNOWLEDGE_BASE_ID'' \<mapsto> ''kb'',
           ''PRODUCT_NAME'' \<mapsto> ''Acme'']
          no_clients True (Some ''hello'') new_session) =
     Inl (ValueError ''Missing required environment variables: MODEL_ID, APP_TITLE'') \<and>
   chat_history (snd (script_run ascii_lower
          [''AWS_REGION'' \<mapsto> ''eu-west-1'', ''AWS_ACCESS_KEY_ID'' \<mapsto> ''id'',
           ''AWS_SECRET_ACCESS_KEY'' \<mapsto> ''key'', ''KNOWLEDGE_BASE_ID'' \<mapsto> ''kb'',
           ''PRODUCT_NAME'' \<mapsto> ''Acme'']
          no_clients True (Some ''hello'') new_session)) = []"
proof -
  let ?env = "[''AWS_REGION'' \<mapsto> ''eu-west-1'', ''AWS_ACCESS_KEY_ID'' \<mapsto> ''id'',
      ''AWS_SECRET_ACCESS_KEY'' \<mapsto> ''key'', ''KNOWLEDGE_BASE_ID'' \<mapsto> ''kb'',
      ''PRODUCT_NAME'' \<mapsto> ''Acme'']"
  have m: "missing_error_msg ?env =
             ''Missing required environment variables: MODEL_ID, APP_TITLE''"
    by code_simp
  have "\<not> env_truthy (getenv ?env ''MODEL_ID'')"
    by code_simp
  moreover have "''MODEL_ID'' \<in> set required_env_vars"
    by (simp add: required_env_vars_def)
  ultimately have "\<exists>var \<in> set required_env_vars. \<not> env_truthy (getenv ?env var)"
    by blast
  from missing_variable_fatal
         [OF this, where str_lower = ascii_lower and b = no_clients and fresh = True
            and chat_input = "Some ''hello''" and st = new_session]
  have "fst (script_run ascii_lower ?env no_clients True (Some ''hello'') new_session) =
          Inl (ValueError (missing_error_msg ?env))"
    and "chat_history (snd (script_run ascii_lower ?env no_clients True (Some ''hello'') new_session)) =
          chat_history new_session"
    by blast+
  then show ?thesis
    using m by (simp add: new_session_def)
qed

section \<open>The chat history of a turn\<close>

text \<open>
  Claim C9. A turn that processes a query appends the user message and the system
  message of the classification to the chat history, whatever happens after. It renders
  the response and appends the assistant message exactly when the response of the
  chosen path is true as a condition; for a response that is a string, that is:
  exactly when the string is not empty. With an empty response nothing is rendered as
  an answer and no assistant message is appended. The response of the generic path is
  always a string.
\<close>

theorem history_of_turn:
  assumes "query \<noteq> []"
  shows "let category = fst (classify_query str_lower env cl query (begin_turn query st));
             response = fst (turn_response str_lower env cl query st);
             st' = handle_turn str_lower env cl (Some query) st
         in chat_history st' =
              chat_history st @
                [\<lparr>role = ''user'', content = JStr query\<rparr>,
                 \<lparr>role = ''system'', content = JStr (''Classified as: '' @ category)\<rparr>] @
                (if truthy response then [\<lparr>role = ''assistant'', content = response\<rparr>] else []) \<and>
            ui st' =
              ui (snd (turn_response str_lower env cl query st)) @
                (if truthy response then [StMarkdown [Fmt response]] else []) \<and>
            (response = JStr s \<longrightarrow>
               chat_history st' =
                 chat_history st @
                   [\<lparr>role = ''user'', content = JStr query\<rparr>,
                    \<lparr>role = ''system'', content = JStr (''Classified as: '' @ category)\<rparr>] @
                   (if s \<noteq> [] then [\<lparr>role = ''assistant'', content = JStr s\<rparr>] else []) \<and>
               ui st' =
                 ui (snd (turn_response str_lower env cl query st)) @
                   (if s \<noteq> [] then [StMarkdown [Fmt (JStr s)]] else [])) \<and>
            (category \<noteq> ''Product'' \<longrightarrow> (\<exists>s. response = JStr s))"
proof -
  let ?category = "fst (classify_query str_lower env cl query (begin_turn query st))"
  let ?response = "fst (turn_response str_lower env cl query st)"
  let ?st' = "handle_turn str_lower env cl (Some query) st"
  have h: "chat_history ?st' =
              chat_history st @
                [\<lparr>role = ''user'', content = JStr query\<rparr>,
                 \<lparr>role = ''system'', content = JStr (''Classified as: '' @ ?category)\<rparr>] @
                (if truthy ?response then [\<lparr>role = ''assistant'', content = ?response\<rparr>] else [])"
    using assms by (simp add: handle_turn_unfold finish_turn_state turn_response_state)
  have u: "ui ?st' =
              ui (snd (turn_response str_lower env cl query st)) @
                (if truthy ?response then [StMarkdown [Fmt ?response]] else [])"
    using assms by (simp add: handle_turn_unfold finish_turn_state)
  have g: "\<exists>s. ?response = JStr s" if "?category \<noteq> ''Product''"
    using that
    by (simp add: turn_response_fst get_generic_response_fst [where st' = st] split: sum.splits)
  have str: "chat_history ?st' =
                 chat_history st @
                   [\<lparr>role = ''user'', content = JStr query\<rparr>,
                    \<lparr>role = ''system'', content = JStr (''Classified as: '' @ ?category)\<rparr>] @
                   (if s \<noteq> [] then [\<lparr>role = ''assistant'', content = JStr s\<rparr>] else [])"
      "ui ?st' =
                 ui (snd (turn_response str_lower env cl query st)) @
                   (if s \<noteq> [] then [StMarkdown [Fmt (JStr s)]] else [])"
    if "?response = JStr s"
    using h u that by simp_all
  show ?thesis
    unfolding Let_def using h u g str by blast
qed

theorem history_of_turn_witness:
  "chat_history (handle_turn ascii_lower (\<lambda>v. Some ''Acme'')
      \<lparr>bedrock_runtime = Some (answering (model_body [JObj [(''text'', JStr ''fine'')]])),
        bedrock_agent = None\<rparr> (Some ''hello'') new_session) =
     [\<lparr>role = ''user'', content = JStr ''hello''\<rparr>,
      \<lparr>role = ''system'', content = JStr ''Classified as: Generic''\<rparr>,
      \<lparr>role = ''assistant'', content = JStr ''fine''\<rparr>] \<and>
   chat_history (handle_turn ascii_lower (\<lambda>v. Some ''Acme'')
      \<lparr>bedrock_runtime = Some (answering (model_body [])),
        bedrock_agent = None\<rparr> (Some ''hello'') new_session) =
     [\<lparr>role = ''user'', content = JStr ''hello''\<rparr>,
      \<lparr>role = ''system'', content = JStr ''Classified as: Generic''\<rparr>]"
proof -
  let ?env = "\<lambda>v::string. Some ''Acme''"
  let ?fine = "\<lparr>bedrock_runtime = Some (answering (model_body [JObj [(''text'', JStr ''fine'')]])),
        bedrock_agent = None\<rparr>"
  let ?none = "\<lparr>bedrock_runtime = Some (answering (model_body [])), bedrock_agent = None\<rparr>"
  have q: "''hello'' \<noteq> []" by simp
  have l: "ascii_lower ''Acme'' = ''acme''" "ascii_lower ''fine'' = ''fine''"
    "ascii_lower [] = []" "\<not> sublist ''acme'' ''fine''"
    by code_simp+
  have e: "extract_text (model_body [JObj [(''text'', JStr ''fine'')]]) = Inr ''fine''"
    "extract_text (model_body []) = Inr []"
    by (simp_all add: extract_text_model_body fragment_def text_field_JObj)
  have c: "fst (classify_query ascii_lower ?env ?fine ''hello'' (begin_turn ''hello'' new_session)) = ''Generic''"
    "fst (classify_query ascii_lower ?env ?none ''hello'' (begin_turn ''hello'' new_session)) = ''Generic''"
    using e l
    by (simp_all add: classify_query_unfold classify_query_try_result answering_def getenv_def)
  have r: "fst (turn_response ascii_lower ?env ?fine ''hello'' new_session) = JStr ''fine''"
    "fst (turn_response ascii_lower ?env ?none ''hello'' new_session) = JStr []"
    using e c
    by (simp_all add: turn_response_fst get_generic_response_unfold
        get_generic_response_try_result answering_def)
  show ?thesis
    using history_of_turn [OF q, of ascii_lower ?env ?fine new_session]
      history_of_turn [OF q, of ascii_lower ?env ?none new_session] c r
    by (simp add: Let_def new_session_def)
qed

text \<open>
  Claim C10. A required variable set to the empty string is treated as one that is not
  set: the list of missing variables is the same, the variable is in it, and the run
  ends with the same fatal error and the same state.
\<close>

theorem empty_value_is_missing:
  assumes "var \<in> set required_env_vars"
  shows "missing_vars (env(var \<mapsto> [])) = missing_vars (env(var := None)) \<and>
         var \<in> set (missing_vars (env(var \<mapsto> []))) \<and>
         script_run str_lower (env(var \<mapsto> [])) b fresh chat_input st =
           script_run str_lower (env(var := None)) b fresh chat_input st \<and>
         fst (script_run str_lower (env(var \<mapsto> [])) b fresh chat_input st) =
           Inl (ValueError (missing_error_msg (env(var \<mapsto> []))))"
proof -
  have same: "missing_vars (env(var \<mapsto> [])) = missing_vars (env(var := None))"
    unfolding missing_vars_def
    by (rule filter_cong) (simp_all add: env_truthy_def getenv_def)
  have inside: "var \<in> set (missing_vars (env(var \<mapsto> [])))"
    using assms by (simp add: missing_vars_iff env_truthy_def getenv_def)
  then have ne: "missing_vars (env(var \<mapsto> [])) \<noteq> []"
    by auto
  then have ne': "missing_vars (env(var := None)) \<noteq> []"
    using same by simp
  have "missing_error_msg (env(var \<mapsto> [])) = missing_error_msg (env(var := None))"
    by (simp add: missing_error_msg_def same)
  then show ?thesis
    using same inside by (simp add: script_run_invalid [OF ne] script_run_invalid [OF ne'])
qed

theorem empty_value_is_missing_witness:
  "missing_vars ((\<lambda>v. Some ''set'')(''MODEL_ID'' \<mapsto> [])) = [''MODEL_ID''] \<and>
   fst (script_run ascii_lower ((\<lambda>v. Some ''set'')(''MODEL_ID'' \<mapsto> [])) no_clients True (Some ''hello'') new_session) =
     Inl (ValueError ''Missing required environment variables: MODEL_ID'')"
proof -
  have r: "''MODEL_ID'' \<in> set required_env_vars"
    by (simp add: required_env_vars_def)
  have m: "missing_vars ((\<lambda>v. Some ''set'')(''MODEL_ID'' \<mapsto> [])) = [''MODEL_ID'']"
    by (simp add: missing_vars_def required_env_vars_def env_truthy_def getenv_def)
  then have e: "missing_error_msg ((\<lambda>v. Some ''set'')(''MODEL_ID'' \<mapsto> [])) =
               ''Missing required environment variables: MODEL_ID''"
    by (simp add: missing_error_msg_def)
  from empty_value_is_missing
         [OF r, where env = "\<lambda>v. Some ''set''" and str_lower = ascii_lower and b = no_clients
            and fresh = True and chat_input = "Some ''hello''" and st = new_session]
  have "fst (script_run ascii_lower ((\<lambda>v. Some ''set'')(''MODEL_ID'' \<mapsto> [])) no_clients True (Some ''hello'') new_session) =
          Inl (ValueError (missing_error_msg ((\<lambda>v. Some ''set'')(''MODEL_ID'' \<mapsto> []))))"
    by blast
  with m e show ?thesis by simp
qed

end
